theory Spec2Isabelle
  imports Complex_Main
begin

section \<open>Arrays, errors and library operations\<close>

text \<open>
  The solver works on JAX arrays. An array of shape \<open>(ny, nx)\<close> is modelled by its
  index function; the shape is passed alongside, and only the cells \<open>i < ny\<close>, \<open>j < nx\<close>
  belong to the array. A tensor field of shape \<open>(4, 4, ny, nx)\<close> takes the two tensor
  indices first. The functions of \<^verbatim>\<open>solver_sdg.py\<close> are modelled in exact real and complex
  arithmetic. Where the behaviour on IEEE special values decides a statement, a second
  model over \<open>fl\<close> (below) carries them; where rounding decides it, the relaxation is
  modelled with a rounding after every operation.
\<close>

type_synonym 'a grid = "nat \<Rightarrow> nat \<Rightarrow> 'a"
type_synonym 'a tensor = "nat \<Rightarrow> nat \<Rightarrow> 'a grid"

datatype error = ValueError | ZeroDivisionError | TypeError | FileNotFoundError

text \<open>Index wrap-around of \<^verbatim>\<open>jnp.roll\<close>: position \<open>k\<close> (possibly negative) on an axis of length \<open>n\<close>.\<close>

definition wrap :: "nat \<Rightarrow> int \<Rightarrow> nat" where
  "wrap n k = nat (k mod int n)"

text \<open>\<^verbatim>\<open>jnp.roll(x, shift, axis)\<close>: the result at \<open>i\<close> is the input at \<open>i - shift\<close>, wrapped.\<close>

definition roll_axis0 :: "nat \<Rightarrow> int \<Rightarrow> 'a grid \<Rightarrow> 'a grid" where
  "roll_axis0 ny shift x = (\<lambda>i j. x (wrap ny (int i - shift)) j)"

definition roll_axis1 :: "nat \<Rightarrow> int \<Rightarrow> 'a grid \<Rightarrow> 'a grid" where
  "roll_axis1 nx shift x = (\<lambda>i j. x i (wrap nx (int j - shift)))"

section \<open>The Jacobi-Poisson solver\<close>

text \<open>
  One pass of the loop body of \<^verbatim>\<open>_jacobi_poisson_solver\<close>:
  \<^verbatim>\<open>x_new = (roll(x,1,0) + roll(x,-1,0) + roll(x,1,1) + roll(x,-1,1) + source*d_sq) / 4.0\<close>,
  then \<^verbatim>\<open>x = (1.0 - omega) * x + omega * x_new\<close>.
\<close>

definition jacobi_sweep :: "nat \<Rightarrow> nat \<Rightarrow> real grid \<Rightarrow> real \<Rightarrow> real \<Rightarrow> real grid \<Rightarrow> real grid" where
  "jacobi_sweep ny nx source d_sq omega x =
     (let x_new = (\<lambda>i j.
            (roll_axis0 ny 1 x i j + roll_axis0 ny (- 1) x i j +
             roll_axis1 nx 1 x i j + roll_axis1 nx (- 1) x i j +
             source i j * d_sq) / 4)
      in (\<lambda>i j. (1 - omega) * x i j + omega * x_new i j))"

text \<open>\<^verbatim>\<open>for _ in range(iterations)\<close>: the body runs \<open>iterations\<close> times, whatever the values.\<close>

fun jacobi_loop :: "nat \<Rightarrow> ('a \<Rightarrow> 'a) \<Rightarrow> 'a \<Rightarrow> 'a" where
  "jacobi_loop 0 body x = x"
| "jacobi_loop (Suc n) body x = jacobi_loop n body (body x)"

definition jacobi_poisson_solver ::
  "nat \<Rightarrow> nat \<Rightarrow> real grid \<Rightarrow> real grid \<Rightarrow> real \<Rightarrow> nat \<Rightarrow> real \<Rightarrow> real grid" where
  "jacobi_poisson_solver ny nx source x dx iterations omega =
     (let d_sq = dx * dx
      in jacobi_loop iterations (jacobi_sweep ny nx source d_sq omega) x)"

text \<open>
  The relaxation step in the words of the specification: the new value at a cell is
  (the sum of its four periodic-wrap neighbours + \<open>S\<close>\<open>dx\<^sup>2\<close>) / 4, and the field moves to
  \<open>(1 - \<omega>) x + \<omega> x_new\<close>.
\<close>

definition relaxation_iteration ::
  "nat \<Rightarrow> nat \<Rightarrow> real grid \<Rightarrow> real \<Rightarrow> real \<Rightarrow> real grid \<Rightarrow> real grid" where
  "relaxation_iteration ny nx S dx \<omega> x =
     (\<lambda>i j. (1 - \<omega>) * x i j +
            \<omega> * ((x ((i + ny - 1) mod ny) j + x ((i + 1) mod ny) j +
                  x i ((j + nx - 1) mod nx) + x i ((j + 1) mod nx) + S i j * dx\<^sup>2) / 4))"

text \<open>Sum and mean of an array of shape \<open>(ny, nx)\<close>.\<close>

definition grid_sum :: "nat \<Rightarrow> nat \<Rightarrow> real grid \<Rightarrow> real" where
  "grid_sum ny nx x = (\<Sum>i<ny. \<Sum>j<nx. x i j)"

definition spatial_mean :: "nat \<Rightarrow> nat \<Rightarrow> real grid \<Rightarrow> real" where
  "spatial_mean ny nx x = grid_sum ny nx x / real (ny * nx)"

section \<open>The geometry solve\<close>

text \<open>\<^verbatim>\<open>jnp.clip(x, lo, None)\<close> is \<^verbatim>\<open>maximum(lo, x)\<close> at every cell.\<close>

definition jnp_clip_min :: "real \<Rightarrow> real grid \<Rightarrow> real grid" where
  "jnp_clip_min lo x = (\<lambda>i j. max lo (x i j))"

text \<open>
  \<^verbatim>\<open>b ** a\<close> on floats. A positive base gives the real power. A zero base gives 0, 1 or
  an infinity by the sign of the exponent, a negative base gives a number only for an
  integral exponent and NaN otherwise. \<open>None\<close> stands for the non-finite results.
\<close>

definition jnp_power :: "real \<Rightarrow> real \<Rightarrow> real option" where
  "jnp_power b a =
     (if 0 < b then Some (b powr a)
      else if b = 0 then (if 0 < a then Some 0 else if a = 0 then Some 1 else None)
      else if a = of_int \<lfloor>a\<rfloor>
           then Some (if 0 \<le> a then b ^ nat \<lfloor>a\<rfloor> else 1 / b ^ nat \<lfloor>- a\<rfloor>)
           else None)"

text \<open>\<^verbatim>\<open>jnp.diag(v)\<close>: the square matrix with \<open>v\<close> on its diagonal.\<close>

definition jnp_diag :: "real list \<Rightarrow> nat \<Rightarrow> nat \<Rightarrow> real" where
  "jnp_diag v a b = (if a = b \<and> a < length v then v ! a else 0)"

text \<open>
  The last three statements of \<^verbatim>\<open>solve_sdg_geometry\<close> (the metric assembly):
  \<^verbatim>\<open>eta = jnp.diag(jnp.array([-1.0, 1.0, 1.0, 1.0]))\<close>,
  \<^verbatim>\<open>scale = (rho_vac / rho_s_new) ** alpha\<close>,
  \<^verbatim>\<open>g_mu_nu = jnp.einsum('ab,xy->abxy', eta, scale)\<close>.
  The product multiplies every entry of \<open>eta\<close> with the scale of the cell, so a
  non-finite scale makes all sixteen entries of the cell non-finite.
\<close>

definition assemble_metric :: "real grid \<Rightarrow> real \<Rightarrow> real \<Rightarrow> real option tensor" where
  "assemble_metric rho_s_new alpha rho_vac =
     (let eta = jnp_diag [- 1, 1, 1, 1];
          scale = (\<lambda>i j. jnp_power (rho_vac / rho_s_new i j) alpha)
      in (\<lambda>a b i j. map_option (\<lambda>s. eta a b * s) (scale i j)))"

text \<open>
  \<^verbatim>\<open>solve_sdg_geometry(T_info, rho_s, spatial_res, alpha, rho_vac)\<close>. The division
  \<^verbatim>\<open>1.0 / spatial_res\<close> is Python's, on the static argument: it raises on zero.
\<close>

definition solve_sdg_geometry ::
  "nat \<Rightarrow> nat \<Rightarrow> complex tensor \<Rightarrow> real grid \<Rightarrow> real \<Rightarrow> real \<Rightarrow> real \<Rightarrow>
     error + (real grid \<times> real option tensor)" where
  "solve_sdg_geometry ny nx T_info rho_s spatial_res alpha rho_vac =
     (if spatial_res = 0 then Inl ZeroDivisionError
      else
        let dx = 1 / spatial_res;
            T_00 = (\<lambda>i j. Re (T_info 0 0 i j));
            rho_s_relaxed = jacobi_poisson_solver ny nx T_00 rho_s dx 50 (18 / 10);
            rho_s_new = jnp_clip_min (1 / 10 ^ 6) rho_s_relaxed;
            g_mu_nu = assemble_metric rho_s_new alpha rho_vac
        in Inr (rho_s_new, g_mu_nu))"

text \<open>The Minkowski signature matrix \<open>diag(-1, 1, 1, 1)\<close> of the specification.\<close>

definition minkowski :: "nat \<Rightarrow> nat \<Rightarrow> real" where
  "minkowski a b = (if a \<noteq> b then 0 else if a = 0 then - 1 else 1)"

section \<open>IEEE special values on the density path\<close>

text \<open>
  A float is a finite number, an infinity or NaN. The operations below follow IEEE 754
  on the special values and are exact on finite ones (no rounding, no overflow, one
  zero). They carry the density path of \<^verbatim>\<open>solve_sdg_geometry\<close> and the validator's
  divergence test, where NaN decides the outcome.
\<close>

datatype fl = Fin real | PInf | MInf | NaN

fun fl_add :: "fl \<Rightarrow> fl \<Rightarrow> fl" where
  "fl_add NaN y = NaN"
| "fl_add x NaN = NaN"
| "fl_add (Fin a) (Fin b) = Fin (a + b)"
| "fl_add PInf MInf = NaN"
| "fl_add MInf PInf = NaN"
| "fl_add PInf y = PInf"
| "fl_add x PInf = PInf"
| "fl_add MInf y = MInf"
| "fl_add x MInf = MInf"

fun fl_signed_inf :: "bool \<Rightarrow> fl" where
  "fl_signed_inf True = PInf"
| "fl_signed_inf False = MInf"

fun fl_mul :: "fl \<Rightarrow> fl \<Rightarrow> fl" where
  "fl_mul NaN y = NaN"
| "fl_mul x NaN = NaN"
| "fl_mul (Fin a) (Fin b) = Fin (a * b)"
| "fl_mul (Fin a) PInf = (if a = 0 then NaN else fl_signed_inf (0 < a))"
| "fl_mul (Fin a) MInf = (if a = 0 then NaN else fl_signed_inf (a < 0))"
| "fl_mul PInf (Fin b) = (if b = 0 then NaN else fl_signed_inf (0 < b))"
| "fl_mul MInf (Fin b) = (if b = 0 then NaN else fl_signed_inf (b < 0))"
| "fl_mul PInf PInf = PInf"
| "fl_mul PInf MInf = MInf"
| "fl_mul MInf PInf = MInf"
| "fl_mul MInf MInf = PInf"

text \<open>Division by a finite non-zero number, the only division on the density path.\<close>

fun fl_div_by :: "fl \<Rightarrow> real \<Rightarrow> fl" where
  "fl_div_by NaN c = NaN"
| "fl_div_by (Fin a) c = Fin (a / c)"
| "fl_div_by PInf c = fl_signed_inf (0 < c)"
| "fl_div_by MInf c = fl_signed_inf (c < 0)"

text \<open>The comparisons \<open>\<le>\<close> and \<open><\<close>: false as soon as one side is NaN.\<close>

fun fl_le :: "fl \<Rightarrow> fl \<Rightarrow> bool" where
  "fl_le NaN y = False"
| "fl_le x NaN = False"
| "fl_le MInf y = True"
| "fl_le x PInf = True"
| "fl_le (Fin a) (Fin b) = (a \<le> b)"
| "fl_le x y = False"

fun fl_lt :: "fl \<Rightarrow> fl \<Rightarrow> bool" where
  "fl_lt NaN y = False"
| "fl_lt x NaN = False"
| "fl_lt (Fin a) (Fin b) = (a < b)"
| "fl_lt MInf MInf = False"
| "fl_lt PInf y = False"
| "fl_lt MInf y = True"
| "fl_lt x PInf = True"
| "fl_lt x y = False"

text \<open>\<^verbatim>\<open>maximum\<close> of NumPy and JAX: NaN when one argument is NaN.\<close>

definition fl_maximum :: "fl \<Rightarrow> fl \<Rightarrow> fl" where
  "fl_maximum x y = (if x = NaN \<or> y = NaN then NaN else if fl_le x y then y else x)"

definition jacobi_sweep_fl :: "nat \<Rightarrow> nat \<Rightarrow> fl grid \<Rightarrow> real \<Rightarrow> real \<Rightarrow> fl grid \<Rightarrow> fl grid" where
  "jacobi_sweep_fl ny nx source d_sq omega x =
     (let x_new = (\<lambda>i j.
            fl_div_by
              (fl_add (fl_add (fl_add (fl_add (roll_axis0 ny 1 x i j) (roll_axis0 ny (- 1) x i j))
                 (roll_axis1 nx 1 x i j)) (roll_axis1 nx (- 1) x i j))
                 (fl_mul (source i j) (Fin d_sq))) 4)
      in (\<lambda>i j. fl_add (fl_mul (Fin (1 - omega)) (x i j)) (fl_mul (Fin omega) (x_new i j))))"

definition jacobi_poisson_solver_fl ::
  "nat \<Rightarrow> nat \<Rightarrow> fl grid \<Rightarrow> fl grid \<Rightarrow> real \<Rightarrow> nat \<Rightarrow> real \<Rightarrow> fl grid" where
  "jacobi_poisson_solver_fl ny nx source x dx iterations omega =
     (let d_sq = dx * dx
      in jacobi_loop iterations (jacobi_sweep_fl ny nx source d_sq omega) x)"

text \<open>
  The density returned by \<^verbatim>\<open>solve_sdg_geometry\<close> (its first result), on floats;
  \<open>T_00\<close> is the real part of \<^verbatim>\<open>T_info[0, 0]\<close>.
\<close>

definition solve_sdg_geometry_density_fl ::
  "nat \<Rightarrow> nat \<Rightarrow> fl grid \<Rightarrow> fl grid \<Rightarrow> real \<Rightarrow> error + fl grid" where
  "solve_sdg_geometry_density_fl ny nx T_00 rho_s spatial_res =
     (if spatial_res = 0 then Inl ZeroDivisionError
      else
        let dx = 1 / spatial_res;
            rho_s_relaxed = jacobi_poisson_solver_fl ny nx T_00 rho_s dx 50 (18 / 10);
            rho_s_new = (\<lambda>i j. fl_maximum (Fin (1 / 10 ^ 6)) (rho_s_relaxed i j))
        in Inr rho_s_new)"

text \<open>
  Inputs of the examples: a zero source, a warm start of NaN and a warm start of zeros.
\<close>

definition zero_source_fl :: "fl grid" where
  "zero_source_fl = (\<lambda>i j. Fin 0)"

definition nan_guess :: "fl grid" where
  "nan_guess = (\<lambda>i j. NaN)"

definition zero_guess :: "fl grid" where
  "zero_guess = (\<lambda>i j. Fin 0)"

definition ramp_guess :: "real grid" where
  "ramp_guess = (\<lambda>i j. real (2 * i + j + 1))"

text \<open>Two arrays agree when they hold the same value at every cell of the shape.\<close>

definition grid_agree :: "nat \<Rightarrow> nat \<Rightarrow> 'a grid \<Rightarrow> 'a grid \<Rightarrow> bool" where
  "grid_agree ny nx x y = (\<forall>i<ny. \<forall>j<nx. x i j = y i j)"

text \<open>
  Two stress-energy tensors with the same real part of the component \<open>[0, 0]\<close>: the
  second has an imaginary part there and the value 5 in the other fifteen components.
\<close>

definition zero_stress :: "complex tensor" where
  "zero_stress = (\<lambda>a b i j. 0)"

definition noisy_stress :: "complex tensor" where
  "noisy_stress = (\<lambda>a b i j. if a = 0 \<and> b = 0 then \<i> else 5)"

section \<open>The informational stress-energy\<close>

text \<open>
  \<^verbatim>\<open>jnp.gradient\<close> along one axis of length \<open>n\<close> with spacing \<open>h\<close>. JAX concatenates
  the upper edge \<^verbatim>\<open>(a[1] - a[0]) / h\<close>, the inner part \<^verbatim>\<open>(a[2:] - a[:-2]) * 0.5 / h\<close> and the
  lower edge \<^verbatim>\<open>(a[-1] - a[-2]) / h\<close>; an axis shorter than 2 raises \<^verbatim>\<open>ValueError\<close>, which
  the callers below check.
\<close>

definition jnp_gradient_1d :: "nat \<Rightarrow> real \<Rightarrow> (nat \<Rightarrow> 'a::real_normed_field) \<Rightarrow> nat \<Rightarrow> 'a" where
  "jnp_gradient_1d n h a i =
     (if i = 0 then (a 1 - a 0) / of_real h
      else if i = n - 1 then (a (n - 1) - a (n - 2)) / of_real h
      else (a (i + 1) - a (i - 1)) * (1 / 2) / of_real h)"

definition gradient_axis0 :: "nat \<Rightarrow> real \<Rightarrow> ('a::real_normed_field) grid \<Rightarrow> 'a grid" where
  "gradient_axis0 ny h f = (\<lambda>i j. jnp_gradient_1d ny h (\<lambda>r. f r j) i)"

definition gradient_axis1 :: "nat \<Rightarrow> real \<Rightarrow> ('a::real_normed_field) grid \<Rightarrow> 'a grid" where
  "gradient_axis1 nx h f = (\<lambda>i j. jnp_gradient_1d nx h (\<lambda>c. f i c) j)"

text \<open>
  \<^verbatim>\<open>calculate_informational_stress_energy(Psi, sdg_kappa, sdg_eta)\<close>.
  \<^verbatim>\<open>jnp.angle\<close> is the argument in \<open>(-\<pi>, \<pi>]\<close>, 0 at 0; \<^verbatim>\<open>jnp.gradient(phi)\<close> has unit
  spacing and returns the derivative along axis 0, then along axis 1. The result has
  \<open>T_00\<close>, cast to the field's complex type, at tensor index \<open>[0, 0]\<close> and zeros elsewhere.
\<close>

definition calculate_informational_stress_energy ::
  "nat \<Rightarrow> nat \<Rightarrow> complex grid \<Rightarrow> real \<Rightarrow> real \<Rightarrow> error + complex tensor" where
  "calculate_informational_stress_energy ny nx Psi sdg_kappa sdg_eta =
     (let rho = (\<lambda>i j. (cmod (Psi i j))\<^sup>2);
          phi = (\<lambda>i j. Arg (Psi i j))
      in if ny < 2 \<or> nx < 2 then Inl ValueError
         else
           let grad_phi_y = gradient_axis0 ny 1 phi;
               grad_phi_x = gradient_axis1 nx 1 phi;
               sqrt_rho = (\<lambda>i j. sqrt (max (rho i j) (1 / 10 ^ 9)));
               grad_rho_y = gradient_axis0 ny 1 sqrt_rho;
               grad_rho_x = gradient_axis1 nx 1 sqrt_rho;
               T_00 = (\<lambda>i j. sdg_kappa * rho i j * ((grad_phi_x i j)\<^sup>2 + (grad_phi_y i j)\<^sup>2) +
                               sdg_eta * ((grad_rho_x i j)\<^sup>2 + (grad_rho_y i j)\<^sup>2))
           in Inr (\<lambda>a b i j. if a = 0 \<and> b = 0 then complex_of_real (T_00 i j) else 0))"

text \<open>
  The gradient in the words of the specification: a central difference with periodic
  wrap at the grid edges. \<open>claimed_T00\<close> is the component \<open>T\<^sub>0\<^sub>0\<close> built on it.
\<close>

definition periodic_central_difference :: "nat \<Rightarrow> (nat \<Rightarrow> real) \<Rightarrow> nat \<Rightarrow> real" where
  "periodic_central_difference n a i = (a ((i + 1) mod n) - a ((i + n - 1) mod n)) / 2"

definition claimed_T00 :: "nat \<Rightarrow> nat \<Rightarrow> complex grid \<Rightarrow> real \<Rightarrow> real \<Rightarrow> real grid" where
  "claimed_T00 ny nx Psi \<kappa> \<eta> =
     (\<lambda>i j. \<kappa> * (cmod (Psi i j))\<^sup>2 *
              ((periodic_central_difference nx (\<lambda>c. Arg (Psi i c)) j)\<^sup>2 +
               (periodic_central_difference ny (\<lambda>r. Arg (Psi r j)) i)\<^sup>2) +
            \<eta> * ((periodic_central_difference nx (\<lambda>c. sqrt (max ((cmod (Psi i c))\<^sup>2) (1 / 10 ^ 9))) j)\<^sup>2 +
                 (periodic_central_difference ny (\<lambda>r. sqrt (max ((cmod (Psi r j))\<^sup>2) (1 / 10 ^ 9))) i)\<^sup>2))"

text \<open>
  The gradient the code computes, stated pointwise: a central difference at interior
  indices, a one-sided difference to the single neighbour at the first and last index.
  \<open>edge_T00\<close> is the component \<open>T\<^sub>0\<^sub>0\<close> built on it.
\<close>

definition edge_difference :: "nat \<Rightarrow> (nat \<Rightarrow> real) \<Rightarrow> nat \<Rightarrow> real" where
  "edge_difference n a i =
     (if i = 0 then a 1 - a 0
      else if Suc i = n then a i - a (i - 1)
      else (a (i + 1) - a (i - 1)) / 2)"

definition edge_T00 :: "nat \<Rightarrow> nat \<Rightarrow> complex grid \<Rightarrow> real \<Rightarrow> real \<Rightarrow> real grid" where
  "edge_T00 ny nx Psi \<kappa> \<eta> =
     (\<lambda>i j. \<kappa> * (cmod (Psi i j))\<^sup>2 *
              ((edge_difference nx (\<lambda>c. Arg (Psi i c)) j)\<^sup>2 +
               (edge_difference ny (\<lambda>r. Arg (Psi r j)) i)\<^sup>2) +
            \<eta> * ((edge_difference nx (\<lambda>c. sqrt (max ((cmod (Psi i c))\<^sup>2) (1 / 10 ^ 9))) j)\<^sup>2 +
                 (edge_difference ny (\<lambda>r. sqrt (max ((cmod (Psi r j))\<^sup>2) (1 / 10 ^ 9))) i)\<^sup>2))"

text \<open>A field with the amplitudes 1, 2, 5 along axis 1, constant along axis 0.\<close>

definition ramp_field :: "complex grid" where
  "ramp_field = (\<lambda>i j. if j = 0 then 1 else if j = 1 then 2 else 5)"

section \<open>The covariant diffusion\<close>

text \<open>
  \<^verbatim>\<open>jnp.linalg.inv\<close> on a 2 x 2 matrix and \<^verbatim>\<open>jnp.linalg.det\<close> on a 4 x 4 matrix. On a
  singular matrix the inverse of the code has non-finite entries and raises nothing;
  the value of \<open>inv_2x2\<close> there (HOL's division by zero) is not the code's.
\<close>

definition inv_2x2 :: "(nat \<Rightarrow> nat \<Rightarrow> real) \<Rightarrow> nat \<Rightarrow> nat \<Rightarrow> real" where
  "inv_2x2 m =
     (let det = m 0 0 * m 1 1 - m 0 1 * m 1 0
      in (\<lambda>i j. (if i = 0 then (if j = 0 then m 1 1 else - m 0 1)
                  else (if j = 0 then - m 1 0 else m 0 0)) / det))"

definition det3 :: "(nat \<Rightarrow> nat \<Rightarrow> real) \<Rightarrow> real" where
  "det3 m = m 0 0 * (m 1 1 * m 2 2 - m 1 2 * m 2 1)
          - m 0 1 * (m 1 0 * m 2 2 - m 1 2 * m 2 0)
          + m 0 2 * (m 1 0 * m 2 1 - m 1 1 * m 2 0)"

definition minor0 :: "(nat \<Rightarrow> nat \<Rightarrow> real) \<Rightarrow> nat \<Rightarrow> nat \<Rightarrow> nat \<Rightarrow> real" where
  "minor0 m c = (\<lambda>i j. m (i + 1) (if j < c then j else j + 1))"

definition det4 :: "(nat \<Rightarrow> nat \<Rightarrow> real) \<Rightarrow> real" where
  "det4 m = m 0 0 * det3 (minor0 m 0) - m 0 1 * det3 (minor0 m 1)
          + m 0 2 * det3 (minor0 m 2) - m 0 3 * det3 (minor0 m 3)"

text \<open>
  The element type of a coordinate array. \<^verbatim>\<open>jnp.arange(n)\<close> on an integer \<open>n\<close> has an
  integer type, and \<^verbatim>\<open>jnp.meshgrid\<close> and \<^verbatim>\<open>jnp.stack\<close> keep it: that is the type of
  \<^verbatim>\<open>grid\<close> in \<^verbatim>\<open>apply_complex_diffusion\<close>.
\<close>

datatype dtype = Int32 | Float32

definition grid_dtype :: dtype where
  "grid_dtype = Int32"

text \<open>
  \<^verbatim>\<open>jax.vmap(jax.vmap(jax.jacfwd(g_ij_at)))(grid)\<close>. \<^verbatim>\<open>jax.jacfwd\<close> checks the type of
  its argument before it differentiates and raises \<^verbatim>\<open>TypeError\<close> ("jacfwd requires
  real-valued inputs") unless it is a floating type. On a floating coordinate at the
  grid point \<open>(y, x)\<close> the function \<^verbatim>\<open>_metric_at_coord\<close> is the order-1 interpolation of
  \<^verbatim>\<open>map_coordinates\<close> in wrap mode: the upper node along an axis has the weight
  \<open>c - floor c\<close>, of derivative 1, the lower node the weight \<open>1 - (c - floor c)\<close>, of
  derivative -1. Its Jacobian at the grid point is therefore the difference to the next
  cell along the axis, wrapped, per index step. The result is indexed \<open>[y, x, i, j, k]\<close>.
\<close>

definition jacfwd_metric ::
  "dtype \<Rightarrow> nat \<Rightarrow> nat \<Rightarrow> (nat \<Rightarrow> nat \<Rightarrow> nat \<Rightarrow> nat \<Rightarrow> real) \<Rightarrow>
     error + (nat \<Rightarrow> nat \<Rightarrow> nat \<Rightarrow> nat \<Rightarrow> nat \<Rightarrow> real)" where
  "jacfwd_metric dt ny nx g_ij =
     (if dt \<noteq> Float32 then Inl TypeError
      else Inr (\<lambda>y x i j k.
             if k = 0 then g_ij ((y + 1) mod ny) x i j - g_ij y x i j
             else g_ij y ((x + 1) mod nx) i j - g_ij y x i j))"

text \<open>
  The statements of \<^verbatim>\<open>apply_complex_diffusion\<close> after the Jacobian \<open>dg\<close>: the Christoffel
  symbols, the gradient and the Hessian of the field by \<^verbatim>\<open>jnp.gradient\<close> with spacing
  \<open>dx\<close>, the Laplace-Beltrami contraction and the complex coefficient.
\<close>

definition diffusion_from_jacobian ::
  "nat \<Rightarrow> nat \<Rightarrow> complex grid \<Rightarrow> real \<Rightarrow> real \<Rightarrow> (nat \<Rightarrow> nat \<Rightarrow> nat \<Rightarrow> nat \<Rightarrow> real) \<Rightarrow>
     (nat \<Rightarrow> nat \<Rightarrow> nat \<Rightarrow> nat \<Rightarrow> nat \<Rightarrow> real) \<Rightarrow> error + complex grid" where
  "diffusion_from_jacobian ny nx Psi epsilon dx g_inv dg =
     (let dg_k = (\<lambda>y x k i j. dg y x i j k);
          term = (\<lambda>y x l i j. dg_k y x i l j + dg_k y x j l i - dg_k y x l i j);
          Gamma = (\<lambda>y x k i j. (1 / 2) * (\<Sum>l<2. g_inv y x k l * term y x l i j))
      in if ny < 2 \<or> nx < 2 then Inl ValueError
         else
           let dPsi_dy = gradient_axis0 ny dx Psi;
               dPsi_dx = gradient_axis1 nx dx Psi;
               dPsi = (\<lambda>y x k. if k = 0 then dPsi_dy y x else dPsi_dx y x);
               d2Psi_dy2 = gradient_axis0 ny dx dPsi_dy;
               d2Psi_dx2 = gradient_axis1 nx dx dPsi_dx;
               d2Psi_dydx = gradient_axis1 nx dx dPsi_dy;
               d2Psi_dxdy = gradient_axis0 ny dx dPsi_dx;
               hessian = (\<lambda>y x i j.
                  if i = 0 then (if j = 0 then d2Psi_dy2 y x else d2Psi_dydx y x)
                  else (if j = 0 then d2Psi_dxdy y x else d2Psi_dx2 y x));
               laplace_beltrami = (\<lambda>y x.
                  (\<Sum>i<2. \<Sum>j<2. complex_of_real (g_inv y x i j) * hessian y x i j) -
                  (\<Sum>i<2. \<Sum>j<2. \<Sum>k<2.
                      complex_of_real (g_inv y x i j) * complex_of_real (Gamma y x k i j) * dPsi y x k))
           in Inr (\<lambda>y x. (complex_of_real (epsilon * (1 / 2)) + \<i> * complex_of_real epsilon * (8 / 10)) *
                          laplace_beltrami y x))"

text \<open>
  \<^verbatim>\<open>apply_complex_diffusion(Psi, epsilon, g_mu_nu, spatial_resolution)\<close>. The division
  \<^verbatim>\<open>1.0 / spatial_resolution\<close> is Python's and raises on zero. The determinant and
  \<^verbatim>\<open>sqrt_neg_g\<close> are computed and not used.
\<close>

definition apply_complex_diffusion ::
  "nat \<Rightarrow> nat \<Rightarrow> complex grid \<Rightarrow> real \<Rightarrow> real tensor \<Rightarrow> real \<Rightarrow> error + complex grid" where
  "apply_complex_diffusion ny nx Psi epsilon g_mu_nu spatial_resolution =
     (if spatial_resolution = 0 then Inl ZeroDivisionError
      else
        let dx = 1 / spatial_resolution;
            g_ij = (\<lambda>y x i j. g_mu_nu (i + 1) (j + 1) y x);
            g_inv = (\<lambda>y x. inv_2x2 (g_ij y x));
            det_g = (\<lambda>y x. det4 (\<lambda>a b. g_mu_nu a b y x));
            sqrt_neg_g = (\<lambda>y x. sqrt (max (- det_g y x) 0))
        in case jacfwd_metric grid_dtype ny nx g_ij of
             Inl e \<Rightarrow> Inl e
           | Inr dg \<Rightarrow> diffusion_from_jacobian ny nx Psi epsilon dx g_inv dg)"

text \<open>
  Metric fields for the examples: the Minkowski metric at every cell, and the same with
  its time and third-space entries replaced.
\<close>

definition flat_metric :: "real tensor" where
  "flat_metric = (\<lambda>a b y x. minkowski a b)"


section \<open>The validator\<close>

text \<open>
  \<^verbatim>\<open>validation_pipeline.py\<close>. The module \<^verbatim>\<open>settings\<close> is configuration: a record. A
  stored array is its shape and its entries in storage order, each entry a complex
  number of two floats (a real array has zero imaginary parts). An archive maps dataset
  names to arrays; the file system maps paths to archives and to provenance records.
\<close>

record settings =
  PROVENANCE_DIR :: string
  DATA_DIR :: string
  SSE_METRIC_KEY :: string
  STABILITY_METRIC_KEY :: string
  SENTINEL_FAILURE :: real
  SENTINEL_DIVERGENCE :: real

record ndarray =
  shape :: "nat list"
  entries :: "(fl \<times> fl) list"

record provenance =
  job_uuid :: string
  metrics :: "string \<rightharpoonup> fl"
  sentinel_code :: real
  validation_status :: string
  error_text :: "string option"
  traceback_text :: "string option"

record filesystem =
  h5_files :: "string \<rightharpoonup> (string \<rightharpoonup> ndarray)"
  json_files :: "string \<rightharpoonup> provenance"

text \<open>An exception: its class and its message \<^verbatim>\<open>str(e)\<close>.\<close>

datatype exn = Exn error string

fun exn_message :: "exn \<Rightarrow> string" where
  "exn_message (Exn k m) = m"

text \<open>
  The spectral analysis (\<^verbatim>\<open>analyze_spectral_fidelity\<close>, built on SciPy's FFT and peak
  finding), \<^verbatim>\<open>np.var\<close> and \<^verbatim>\<open>traceback.format_exc\<close> are parameters of the model; the
  first two may raise.
\<close>

record analysis =
  analyze_spectral_fidelity :: "fl list \<Rightarrow> nat list \<Rightarrow> exn + fl"
  np_var :: "ndarray \<Rightarrow> exn + fl"
  format_exc :: "exn \<Rightarrow> string"

text \<open>\<^verbatim>\<open>os.path.join\<close> of a directory and a relative file name.\<close>

definition path_join :: "string \<Rightarrow> string \<Rightarrow> string" where
  "path_join d f = (if d = [] then f else if last d = CHR ''/'' then d @ f else d @ ''/'' @ f)"

text \<open>
  \<^verbatim>\<open>atomic_write_provenance\<close>: the record is written to \<^verbatim>\<open>filepath + ".tmp"\<close>, which
  \<^verbatim>\<open>os.replace\<close> then moves onto \<^verbatim>\<open>filepath\<close>. Both steps are taken to succeed.
\<close>

definition atomic_write_provenance :: "string \<Rightarrow> provenance \<Rightarrow> filesystem \<Rightarrow> filesystem" where
  "atomic_write_provenance filepath data fs =
     (let temp_path = filepath @ ''.tmp'';
          written = (json_files fs)(temp_path \<mapsto> data)
      in fs\<lparr>json_files := (written(filepath := written temp_path))(temp_path := None)\<rparr>)"

text \<open>
  \<^verbatim>\<open>np.abs\<close> of a complex entry is \<^verbatim>\<open>hypot\<close>: infinite as soon as one part is
  infinite, else NaN as soon as one part is NaN. \<^verbatim>\<open>rho = np.abs(psi)**2\<close>.
\<close>

fun fl_is_inf :: "fl \<Rightarrow> bool" where
  "fl_is_inf PInf = True"
| "fl_is_inf MInf = True"
| "fl_is_inf x = False"

fun np_abs :: "fl \<times> fl \<Rightarrow> fl" where
  "np_abs (Fin a, Fin b) = Fin (sqrt (a\<^sup>2 + b\<^sup>2))"
| "np_abs (re, im) = (if fl_is_inf re \<or> fl_is_inf im then PInf else NaN)"

definition density :: "ndarray \<Rightarrow> fl list" where
  "density psi = map (\<lambda>z. fl_mul (np_abs z) (np_abs z)) (entries psi)"

text \<open>\<^verbatim>\<open>np.max\<close>: raises on an empty array, and is NaN when an entry is NaN.\<close>

fun np_max :: "fl list \<Rightarrow> exn + fl" where
  "np_max [] = Inl (Exn ValueError ''zero-size array to reduction operation maximum which has no identity'')"
| "np_max (v # vs) = Inr (foldl fl_maximum v vs)"

text \<open>The test \<^verbatim>\<open>np.isnan(rho).any() or np.max(rho) > 1e6\<close>; \<^verbatim>\<open>or\<close> evaluates its right side only when the left is false.\<close>

definition divergence_test :: "fl list \<Rightarrow> exn + bool" where
  "divergence_test rho =
     (if list_ex (\<lambda>v. v = NaN) rho then Inr True
      else case np_max rho of Inl e \<Rightarrow> Inl e | Inr m \<Rightarrow> Inr (fl_lt (Fin (10 ^ 6)) m))"

text \<open>
  The body of the \<^verbatim>\<open>try\<close> block of \<^verbatim>\<open>run_validation\<close>. It ends by the \<^verbatim>\<open>return\<close> of the
  divergence branch (after its own write), by reaching the end of the block, or by an
  exception; the record \<^verbatim>\<open>output_data\<close> is mutated in place, so the handler sees it
  as the exception left it.
\<close>

datatype outcome = Returned filesystem | Completed provenance | Raised exn provenance

definition validation_try ::
  "settings \<Rightarrow> analysis \<Rightarrow> filesystem \<Rightarrow> string \<Rightarrow> string \<Rightarrow> provenance \<Rightarrow> outcome" where
  "validation_try st an fs h5_path prov_path output_data =
     (case h5_files fs h5_path of
        None \<Rightarrow> Raised (Exn FileNotFoundError (''Artifact '' @ h5_path @ '' not found.'')) output_data
      | Some f \<Rightarrow>
         (case f ''final_psi'' of
            None \<Rightarrow> Raised (Exn ValueError (''Corrupt HDF5: '' @ [CHR 0x27] @ ''final_psi'' @ [CHR 0x27] @ '' missing.'')) output_data
          | Some psi \<Rightarrow>
             let rho = density psi
             in (case divergence_test rho of
                   Inl e \<Rightarrow> Raised e output_data
                 | Inr True \<Rightarrow>
                     let output_data = output_data\<lparr>sentinel_code := SENTINEL_DIVERGENCE st\<rparr>;
                         output_data = output_data\<lparr>validation_status := ''DIVERGENCE''\<rparr>;
                         output_data = output_data\<lparr>metrics := (metrics output_data)(SSE_METRIC_KEY st \<mapsto> Fin 1000)\<rparr>
                     in Returned (atomic_write_provenance prov_path output_data fs)
                 | Inr False \<Rightarrow>
                     (case (case f ''final_g_mu_nu'' of
                              Some g_tensor \<Rightarrow> np_var an g_tensor
                            | None \<Rightarrow> Inr (Fin 0)) of
                        Inl e \<Rightarrow> Raised e output_data
                      | Inr h_norm \<Rightarrow>
                          (case analyze_spectral_fidelity an rho (shape psi) of
                             Inl e \<Rightarrow> Raised e output_data
                           | Inr sse \<Rightarrow>
                               let output_data = output_data\<lparr>metrics := (metrics output_data)(SSE_METRIC_KEY st \<mapsto> sse)\<rparr>;
                                   output_data = output_data\<lparr>metrics := (metrics output_data)(STABILITY_METRIC_KEY st \<mapsto> h_norm)\<rparr>
                               in Completed output_data)))))"

definition h5_path_of :: "settings \<Rightarrow> string \<Rightarrow> string" where
  "h5_path_of st job = path_join (DATA_DIR st) (''rho_history_'' @ job @ ''.h5'')"

definition prov_path_of :: "settings \<Rightarrow> string \<Rightarrow> string" where
  "prov_path_of st job = path_join (PROVENANCE_DIR st) (''provenance_'' @ job @ ''.json'')"

text \<open>\<^verbatim>\<open>run_validation(job_uuid)\<close>, as a function from the file system to the file system.\<close>

definition run_validation :: "settings \<Rightarrow> analysis \<Rightarrow> filesystem \<Rightarrow> string \<Rightarrow> filesystem" where
  "run_validation st an fs job =
     (let h5_path = h5_path_of st job;
          prov_path = prov_path_of st job;
          output_data = \<lparr>job_uuid = job, metrics = Map.empty, sentinel_code = 0,
                         validation_status = ''PASS'', error_text = None, traceback_text = None\<rparr>
      in case validation_try st an fs h5_path prov_path output_data of
           Returned fs' \<Rightarrow> fs'
         | Completed output_data \<Rightarrow> atomic_write_provenance prov_path output_data fs
         | Raised e output_data \<Rightarrow>
             atomic_write_provenance prov_path
               (output_data\<lparr>sentinel_code := SENTINEL_FAILURE st, validation_status := ''CRASH'',
                   error_text := Some (exn_message e), traceback_text := Some (format_exc an e)\<rparr>) fs)"

text \<open>A float is finite when it is neither an infinity nor NaN.\<close>

fun fl_finite :: "fl \<Rightarrow> bool" where
  "fl_finite (Fin a) = True"
| "fl_finite x = False"

text \<open>
  The fallback settings of the module, a one-entry field holding NaN, an archive with
  that field, and an analysis whose every part raises.
\<close>

definition fallback_settings :: settings where
  "fallback_settings = \<lparr>PROVENANCE_DIR = ''provenance_reports'', DATA_DIR = ''simulation_data'',
      SSE_METRIC_KEY = ''log_prime_sse'', STABILITY_METRIC_KEY = ''h_norm'',
      SENTINEL_FAILURE = 999, SENTINEL_DIVERGENCE = 1002\<rparr>"

definition nan_field :: ndarray where
  "nan_field = \<lparr>shape = [1, 1, 1], entries = [(NaN, Fin 0)]\<rparr>"

definition nan_archive :: "string \<rightharpoonup> ndarray" where
  "nan_archive = [''final_psi'' \<mapsto> nan_field]"

definition nan_store :: filesystem where
  "nan_store = \<lparr>h5_files = [''simulation_data/rho_history_j1.h5'' \<mapsto> nan_archive],
      json_files = Map.empty\<rparr>"

definition failing_analysis :: analysis where
  "failing_analysis = \<lparr>analyze_spectral_fidelity = (\<lambda>rho sh. Inl (Exn ValueError [])),
      np_var = (\<lambda>g. Inl (Exn ValueError [])), format_exc = (\<lambda>e. [])\<rparr>"

section \<open>The relaxation in rounded arithmetic\<close>

text \<open>
  The solver on binary floating point: every arithmetic operation of the loop body
  returns the rounding \<open>rnd\<close> of its exact result, in the order the code evaluates them.
  The arrays, \<open>dx\<close> and \<open>omega\<close> hold floats already.
\<close>

definition jacobi_sweep_rnd ::
  "(real \<Rightarrow> real) \<Rightarrow> nat \<Rightarrow> nat \<Rightarrow> real grid \<Rightarrow> real \<Rightarrow> real \<Rightarrow> real grid \<Rightarrow> real grid" where
  "jacobi_sweep_rnd rnd ny nx source d_sq omega x =
     (let x_new = (\<lambda>i j.
            rnd (rnd (rnd (rnd (rnd (roll_axis0 ny 1 x i j + roll_axis0 ny (- 1) x i j) +
                 roll_axis1 nx 1 x i j) + roll_axis1 nx (- 1) x i j) +
                 rnd (source i j * d_sq)) / 4))
      in (\<lambda>i j. rnd (rnd (rnd (1 - omega) * x i j) + rnd (omega * x_new i j))))"

definition jacobi_poisson_solver_rnd ::
  "(real \<Rightarrow> real) \<Rightarrow> nat \<Rightarrow> nat \<Rightarrow> real grid \<Rightarrow> real grid \<Rightarrow> real \<Rightarrow> nat \<Rightarrow> real \<Rightarrow> real grid" where
  "jacobi_poisson_solver_rnd rnd ny nx source x dx iterations omega =
     (let d_sq = rnd (dx * dx)
      in jacobi_loop iterations (jacobi_sweep_rnd rnd ny nx source d_sq omega) x)"

text \<open>
  Rounding to the nearest number with 24 significant bits, ties to the even mantissa:
  the rounding of binary32, the default precision of JAX, with an unbounded exponent
  range (overflow and underflow are not represented).
\<close>

definition round_even :: "real \<Rightarrow> int" where
  "round_even t =
     (let f = \<lfloor>t\<rfloor>; r = t - of_int f
      in if r < 1 / 2 then f else if 1 / 2 < r then f + 1 else if even f then f else f + 1)"

definition round24 :: "real \<Rightarrow> real" where
  "round24 y =
     (if y = 0 then 0
      else let e = \<lfloor>log 2 \<bar>y\<bar>\<rfloor>
           in of_int (round_even (y * 2 powi (23 - e))) * 2 powi (e - 23))"

text \<open>The binary32 number nearest to 1.8, and a zero source.\<close>

definition omega32 :: real where
  "omega32 = 15099494 / 8388608"

definition zero_source :: "real grid" where
  "zero_source = (\<lambda>i j. 0)"

text \<open>
  \<open>yh\<close> approximates \<open>y\<close> after \<open>k\<close> roundings of unit roundoff \<open>u\<close>, relative to a
  bound \<open>B\<close> on \<open>y\<close>.
\<close>

definition approx_to :: "real \<Rightarrow> nat \<Rightarrow> real \<Rightarrow> real \<Rightarrow> real \<Rightarrow> bool" where
  "approx_to u k B yh y = (\<bar>y\<bar> \<le> B \<and> \<bar>yh - y\<bar> \<le> ((1 + u) ^ k - 1) * B)"

section \<open>Index lemmas\<close>

lemma wrap_pred: "wrap n (int i - 1) = (i + n - 1) mod n"
proof (cases "n = 0")
  case True
  then show ?thesis by (simp add: wrap_def)
next
  case False
  then have "(int i - 1) mod int n = (int i - 1 + int n) mod int n"
    by simp
  also have "int i - 1 + int n = int (i + n - 1)"
    using False by (simp add: of_nat_diff)
  finally show ?thesis
    by (simp add: wrap_def zmod_int [symmetric] del: of_nat_add)
qed

lemma wrap_succ: "wrap n (int i + 1) = (i + 1) mod n"
proof -
  have "(int i + 1) mod int n = int (Suc i mod n)"
    by (simp add: zmod_int add.commute)
  then show ?thesis
    by (simp add: wrap_def)
qed

lemma wrap_less: "0 < n \<Longrightarrow> wrap n k < n"
  by (simp add: wrap_def nat_less_iff)

lemma jacobi_sweep_eq: "jacobi_sweep ny nx S (dx * dx) \<omega> = relaxation_iteration ny nx S dx \<omega>"
  by (simp add: jacobi_sweep_def relaxation_iteration_def roll_axis0_def roll_axis1_def
      wrap_pred wrap_succ power2_eq_square fun_eq_iff)

lemma jacobi_loop_funpow: "jacobi_loop n body x = (body ^^ n) x"
  by (induction n arbitrary: x) (simp_all add: funpow_swap1)

lemma jacobi_loop_Suc: "jacobi_loop (Suc n) body x = body (jacobi_loop n body x)"
  by (simp add: jacobi_loop_funpow)

lemma sum_succ_mod: "(\<Sum>i<(n::nat). f ((i + 1) mod n)) = (\<Sum>i<n. (f i :: real))"
proof (cases n)
  case 0
  then show ?thesis by simp
next
  case (Suc m)
  have "(\<Sum>i<Suc m. f ((i + 1) mod Suc m)) = (\<Sum>i<m. f (Suc i)) + f 0"
    by simp
  also have "\<dots> = (\<Sum>i<Suc m. f i)"
    by (simp add: sum.lessThan_Suc_shift del: sum.lessThan_Suc)
  finally show ?thesis using Suc by simp
qed

lemma sum_pred_mod: "(\<Sum>i<(n::nat). f ((i + n - 1) mod n)) = (\<Sum>i<n. (f i :: real))"
proof (cases n)
  case 0
  then show ?thesis by simp
next
  case (Suc m)
  have "(\<Sum>i<Suc m. f ((i + Suc m - 1) mod Suc m)) = f m + (\<Sum>i<m. f ((Suc i + m) mod Suc m))"
    by (simp add: sum.lessThan_Suc_shift del: sum.lessThan_Suc)
  also have "(\<Sum>i<m. f ((Suc i + m) mod Suc m)) = (\<Sum>i<m. f i)"
  proof (rule sum.cong [OF refl])
    fix i assume "i \<in> {..<m}"
    then have "i < Suc m" by simp
    have "(Suc i + m) mod Suc m = (i + Suc m) mod Suc m" by simp
    also have "\<dots> = i" using \<open>i < Suc m\<close> by (simp del: add_Suc_right)
    finally show "f ((Suc i + m) mod Suc m) = f i" by simp
  qed
  finally show ?thesis using Suc by simp
qed

section \<open>The relaxation: fixed sweeps and the mean under a zero source\<close>

lemma solver_funpow:
  "jacobi_poisson_solver ny nx S x dx n w = (relaxation_iteration ny nx S dx w ^^ n) x"
  by (simp add: jacobi_poisson_solver_def jacobi_loop_funpow jacobi_sweep_eq)

lemma solver_Suc:
  "jacobi_poisson_solver ny nx S x dx (Suc k) w =
     relaxation_iteration ny nx S dx w (jacobi_poisson_solver ny nx S x dx k w)"
  by (simp add: solver_funpow)

text \<open>
  C2. The geometry solve calls the relaxation with 50 iterations and \<open>\<omega> = 1.8\<close>. Its
  result is the 50-fold application of the specification's step (four periodic-wrap
  neighbours plus \<open>S dx\<^sup>2\<close>, over 4, blended with weight \<open>\<omega>\<close>) to the warm start, with no
  test on the values; the solver returns that iterate as it is, and the clipping to
  \<open>10\<^sup>-\<^sup>6\<close> is applied by the caller, \<^verbatim>\<open>solve_sdg_geometry\<close>.
\<close>

theorem relaxation_fixed_sweeps:
  assumes "spatial_res \<noteq> 0"
  shows "jacobi_poisson_solver ny nx (\<lambda>i j. Re (T_info 0 0 i j)) rho_s (1 / spatial_res) 50 (18 / 10) =
           (relaxation_iteration ny nx (\<lambda>i j. Re (T_info 0 0 i j)) (1 / spatial_res) (18 / 10) ^^ 50) rho_s
         \<and> (\<exists>g. solve_sdg_geometry ny nx T_info rho_s spatial_res alpha rho_vac =
               Inr (jnp_clip_min (1 / 10 ^ 6)
                      (jacobi_poisson_solver ny nx (\<lambda>i j. Re (T_info 0 0 i j)) rho_s
                         (1 / spatial_res) 50 (18 / 10)), g))"
  using assms by (simp add: solver_funpow solve_sdg_geometry_def Let_def)

theorem relaxation_fixed_sweeps_witness:
  "(2::real) \<noteq> 0 \<and>
   jacobi_poisson_solver 2 2 (\<lambda>i j. Re (zero_stress 0 0 i j)) ramp_guess (1 / 2) 50 (18 / 10) =
     (relaxation_iteration 2 2 (\<lambda>i j. Re (zero_stress 0 0 i j)) (1 / 2) (18 / 10) ^^ 50) ramp_guess"
  using relaxation_fixed_sweeps [of 2 2 2 zero_stress ramp_guess 1 1] by simp

lemma grid_sum_sweep:
  "grid_sum ny nx (relaxation_iteration ny nx S dx w x) =
     grid_sum ny nx x + w * dx\<^sup>2 * grid_sum ny nx S / 4"
proof -
  have a: "(\<Sum>i<ny. \<Sum>j<nx. x ((i + ny - 1) mod ny) j) = grid_sum ny nx x"
    unfolding grid_sum_def by (rule sum_pred_mod [of "\<lambda>i. \<Sum>j<nx. x i j" ny])
  have b: "(\<Sum>i<ny. \<Sum>j<nx. x ((i + 1) mod ny) j) = grid_sum ny nx x"
    unfolding grid_sum_def by (rule sum_succ_mod [of "\<lambda>i. \<Sum>j<nx. x i j" ny])
  have c: "(\<Sum>i<ny. \<Sum>j<nx. x i ((j + nx - 1) mod nx)) = grid_sum ny nx x"
    unfolding grid_sum_def by (rule sum.cong [OF refl]) (rule sum_pred_mod)
  have d: "(\<Sum>i<ny. \<Sum>j<nx. x i ((j + 1) mod nx)) = grid_sum ny nx x"
    unfolding grid_sum_def by (rule sum.cong [OF refl]) (rule sum_succ_mod)
  have "grid_sum ny nx (relaxation_iteration ny nx S dx w x) =
        (1 - w) * grid_sum ny nx x +
        w * (((\<Sum>i<ny. \<Sum>j<nx. x ((i + ny - 1) mod ny) j) + (\<Sum>i<ny. \<Sum>j<nx. x ((i + 1) mod ny) j) +
             (\<Sum>i<ny. \<Sum>j<nx. x i ((j + nx - 1) mod nx)) + (\<Sum>i<ny. \<Sum>j<nx. x i ((j + 1) mod nx)) +
             grid_sum ny nx S * dx\<^sup>2) / 4)"
    unfolding grid_sum_def relaxation_iteration_def
    by (simp add: sum.distrib sum_distrib_left [symmetric] sum_distrib_right [symmetric]
        sum_divide_distrib [symmetric])
  also have "\<dots> = grid_sum ny nx x + w * dx\<^sup>2 * grid_sum ny nx S / 4"
    unfolding a b c d by (simp add: algebra_simps)
  finally show ?thesis .
qed

text \<open>
  In exact arithmetic a zero source leaves the spatial mean unchanged by an iteration.
\<close>

lemma exact_mean_preserved:
  assumes "\<And>i j. i < ny \<Longrightarrow> j < nx \<Longrightarrow> S i j = 0"
  shows "spatial_mean ny nx (jacobi_poisson_solver ny nx S x dx (Suc k) w) =
         spatial_mean ny nx (jacobi_poisson_solver ny nx S x dx k w)"
proof -
  have "grid_sum ny nx S = 0"
    unfolding grid_sum_def using assms by simp
  then show ?thesis
    by (simp add: spatial_mean_def solver_Suc grid_sum_sweep)
qed

subsection \<open>The rounding of binary32\<close>

lemma round_even_error: "\<bar>of_int (round_even t) - t\<bar> \<le> 1 / 2"
proof -
  have "of_int \<lfloor>t\<rfloor> \<le> t" "t < of_int \<lfloor>t\<rfloor> + 1"
    by linarith+
  then show ?thesis
    by (auto simp: round_even_def Let_def abs_le_iff)
qed

lemma two_powr_int: "2 powr (of_int e) = (2::real) powi e"
  by (simp add: powr_real_of_int power_int_def power_one_over inverse_eq_divide)

lemma floor_log2_bounds:
  assumes "y \<noteq> 0"
  shows "2 powi \<lfloor>log 2 \<bar>y\<bar>\<rfloor> \<le> \<bar>y\<bar>" and "\<bar>y\<bar> < 2 powi (\<lfloor>log 2 \<bar>y\<bar>\<rfloor> + 1)"
proof -
  have "0 < \<bar>y\<bar>" using assms by simp
  from floor_log_eq_powr_iff [OF this, of 2 "\<lfloor>log 2 \<bar>y\<bar>\<rfloor>"]
  have "2 powr (of_int \<lfloor>log 2 \<bar>y\<bar>\<rfloor>) \<le> \<bar>y\<bar> \<and> \<bar>y\<bar> < 2 powr (of_int (\<lfloor>log 2 \<bar>y\<bar>\<rfloor> + 1))"
    by simp
  then show "2 powi \<lfloor>log 2 \<bar>y\<bar>\<rfloor> \<le> \<bar>y\<bar>" and "\<bar>y\<bar> < 2 powi (\<lfloor>log 2 \<bar>y\<bar>\<rfloor> + 1)"
    by (simp_all only: two_powr_int)
qed

lemma round24_at:
  assumes "2 powi e \<le> \<bar>y\<bar>" and "\<bar>y\<bar> < 2 powi (e + 1)"
  shows "round24 y = of_int (round_even (y * 2 powi (23 - e))) * 2 powi (e - 23)"
proof -
  have "0 < (2::real) powi e" by simp
  with assms have y: "0 < \<bar>y\<bar>" by linarith
  have "2 powr (of_int e) \<le> \<bar>y\<bar> \<and> \<bar>y\<bar> < 2 powr (of_int (e + 1))"
    using assms by (simp only: two_powr_int)
  then have "\<lfloor>log 2 \<bar>y\<bar>\<rfloor> = e"
    using floor_log_eq_powr_iff [OF y, of 2 e] by simp
  with y show ?thesis
    by (simp add: round24_def)
qed

lemma round24_error: "\<bar>round24 y - y\<bar> \<le> (1 / 2 ^ 24) * \<bar>y\<bar>"
proof (cases "y = 0")
  case True
  then show ?thesis by (simp add: round24_def)
next
  case False
  define e where "e = \<lfloor>log 2 \<bar>y\<bar>\<rfloor>"
  define s :: real where "s = 2 powi (e - 23)"
  have s: "0 < s" by (simp add: s_def)
  have inv: "2 powi (23 - e) = 1 / s"
    by (simp add: s_def power_int_diff field_simps)
  have lo: "2 powi e \<le> \<bar>y\<bar>"
    using floor_log2_bounds(1) [OF False] by (simp add: e_def)
  have se: "s = 2 powi e / 2 ^ 23"
    by (simp add: s_def power_int_diff)
  have "round24 y - y = (of_int (round_even (y / s)) - y / s) * s"
    using False s by (simp add: round24_def e_def [symmetric] inv s_def [symmetric] field_simps)
  then have "\<bar>round24 y - y\<bar> = \<bar>of_int (round_even (y / s)) - y / s\<bar> * s"
    using s by (simp add: abs_mult)
  also have "\<dots> \<le> (1 / 2) * s"
    using round_even_error [of "y / s"] s by (intro mult_right_mono) simp_all
  also have "\<dots> = (1 / 2 ^ 24) * 2 powi e"
    by (simp add: se)
  also have "\<dots> \<le> (1 / 2 ^ 24) * \<bar>y\<bar>"
    using lo by (intro mult_left_mono) simp_all
  finally show ?thesis .
qed

lemma r_vals:
  "round24 0 = 0" "round24 2 = 2" "round24 4 = 4" "round24 6 = 6" "round24 7 = 7"
  "round24 8 = 8" "round24 9 = 9" "round24 10 = 10" "round24 (5 / 2) = 5 / 2"
  "round24 (1 / 4) = 1 / 4"
  by (simp add: round24_def,
      simp_all add: round24_at [where e = 1] round24_at [where e = 2] round24_at [where e = 3]
        round24_at [where e = "- 2"] round_even_def)

subsection \<open>One sweep of the field 1, 2, 3, 4 in binary32\<close>

lemma c1_val: "round24 (1 - omega32) = - (3355443 / 4194304)"
  by (simp add: omega32_def round24_at [where e = "- 1"] round_even_def)

lemma q_val: "round24 (omega32 * 5 / 2) = 9 / 2"
  by (simp add: omega32_def round24_at [where e = 2] round_even_def)

lemma omega32_is_rounded: "round24 (18 / 10) = omega32"
  by (simp add: omega32_def round24_at [where e = 0] round_even_def)

lemma p_vals:
  "round24 (- (3355443 / 4194304)) = - (3355443 / 4194304)"
  "round24 (- (3355443 / 2097152)) = - (3355443 / 2097152)"
  "round24 (- (10066329 / 4194304)) = - (10066329 / 4194304)"
  "round24 (- (3355443 / 1048576)) = - (3355443 / 1048576)"
  by (simp_all add: round24_at [where e = "- 1"] round24_at [where e = 0] round24_at [where e = 1]
      round_even_def)

lemma x_vals:
  "round24 (15518925 / 4194304) = 15518925 / 4194304"
  "round24 (6081741 / 2097152) = 6081741 / 2097152"
  "round24 (8808039 / 4194304) = 8808039 / 4194304"
  "round24 (1363149 / 1048576) = 1363149 / 1048576"
  by (simp_all add: round24_at [where e = 0] round24_at [where e = 1] round_even_def)

lemma sweep32_ramp:
  "jacobi_sweep_rnd round24 2 2 zero_source (1 / 4) omega32 ramp_guess 0 0 = 15518925 / 4194304"
  "jacobi_sweep_rnd round24 2 2 zero_source (1 / 4) omega32 ramp_guess 0 1 = 6081741 / 2097152"
  "jacobi_sweep_rnd round24 2 2 zero_source (1 / 4) omega32 ramp_guess 1 0 = 8808039 / 4194304"
  "jacobi_sweep_rnd round24 2 2 zero_source (1 / 4) omega32 ramp_guess 1 1 = 1363149 / 1048576"
  by (simp_all add: jacobi_sweep_rnd_def Let_def roll_axis0_def roll_axis1_def wrap_def ramp_guess_def
      zero_source_def r_vals c1_val q_val p_vals x_vals)

lemma grid_sum_2x2: "grid_sum 2 2 f = f 0 0 + f 0 1 + f 1 0 + f 1 1"
  by (simp add: grid_sum_def lessThan_Suc numeral_2_eq_2)

lemma means32:
  "spatial_mean 2 2 (jacobi_poisson_solver_rnd round24 2 2 zero_source ramp_guess (1 / 2) 0 omega32) = 5 / 2"
  "spatial_mean 2 2 (jacobi_poisson_solver_rnd round24 2 2 zero_source ramp_guess (1 / 2) (Suc 0) omega32) =
     20971521 / 8388608"
proof -
  show "spatial_mean 2 2 (jacobi_poisson_solver_rnd round24 2 2 zero_source ramp_guess (1 / 2) 0 omega32) = 5 / 2"
    by (simp add: jacobi_poisson_solver_rnd_def spatial_mean_def grid_sum_2x2 ramp_guess_def)
  have "jacobi_poisson_solver_rnd round24 2 2 zero_source ramp_guess (1 / 2) (Suc 0) omega32 =
      jacobi_sweep_rnd round24 2 2 zero_source (1 / 4) omega32 ramp_guess"
    by (simp add: jacobi_poisson_solver_rnd_def r_vals)
  then show "spatial_mean 2 2
      (jacobi_poisson_solver_rnd round24 2 2 zero_source ramp_guess (1 / 2) (Suc 0) omega32) =
     20971521 / 8388608"
    by (simp add: spatial_mean_def grid_sum_2x2 sweep32_ramp del: One_nat_def)
qed

text \<open>
  C7, as stated: with a zero source every iteration leaves the spatial mean equal. It
  fails in the arithmetic of the code: on the 2 x 2 field 1, 2, 3, 4 with \<open>dx = 1/2\<close> and
  \<open>\<omega>\<close> the binary32 number nearest to 1.8, the product of \<open>\<omega>\<close> and 2.5 rounds to 4.5 and the
  mean moves from 5/2 to 20971521/8388608 in the first iteration.
\<close>

theorem relaxation_mean_not_exact:
  "spatial_mean 2 2 (jacobi_poisson_solver_rnd round24 2 2 zero_source ramp_guess (1 / 2) 0 omega32) = 5 / 2 \<and>
   spatial_mean 2 2 (jacobi_poisson_solver_rnd round24 2 2 zero_source ramp_guess (1 / 2) (Suc 0) omega32) =
     20971521 / 8388608 \<and>
   spatial_mean 2 2 (jacobi_poisson_solver_rnd round24 2 2 zero_source ramp_guess (1 / 2) (Suc 0) omega32) \<noteq>
   spatial_mean 2 2 (jacobi_poisson_solver_rnd round24 2 2 zero_source ramp_guess (1 / 2) 0 omega32)"
  by (simp add: means32)

subsection \<open>The drift of the mean under rounding\<close>

lemma approx_exact: "\<bar>y\<bar> \<le> B \<Longrightarrow> approx_to u 0 B y y"
  by (simp add: approx_to_def)

lemma growth_mono: "0 \<le> u \<Longrightarrow> k \<le> k' \<Longrightarrow> (1 + u) ^ k \<le> (1 + (u::real)) ^ k'"
  by (rule power_increasing) simp_all

lemma approx_weaken:
  assumes "0 \<le> u" and "k \<le> k'" and "approx_to u k B yh y"
  shows "approx_to u k' B yh y"
proof -
  have B: "0 \<le> B" using assms(3) by (auto simp: approx_to_def)
  have "((1 + u) ^ k - 1) * B \<le> ((1 + u) ^ k' - 1) * B"
    using growth_mono [OF assms(1,2)] B by (intro mult_right_mono) simp_all
  with assms(3) show ?thesis by (auto simp: approx_to_def)
qed

lemma approx_rnd:
  assumes "0 \<le> u" and "\<And>z. \<bar>rnd z - z\<bar> \<le> u * \<bar>z\<bar>" and "approx_to u k B yh y"
  shows "approx_to u (Suc k) B (rnd yh) y"
proof -
  have y: "\<bar>y\<bar> \<le> B" and e: "\<bar>yh - y\<bar> \<le> ((1 + u) ^ k - 1) * B"
    using assms(3) by (auto simp: approx_to_def)
  have "\<bar>yh\<bar> \<le> \<bar>y\<bar> + \<bar>yh - y\<bar>" by simp
  also have "\<dots> \<le> B + ((1 + u) ^ k - 1) * B" using y e by simp
  also have "\<dots> = (1 + u) ^ k * B" by (simp add: algebra_simps)
  finally have yh: "\<bar>yh\<bar> \<le> (1 + u) ^ k * B" .
  have "\<bar>rnd yh - y\<bar> \<le> \<bar>rnd yh - yh\<bar> + \<bar>yh - y\<bar>" by simp
  also have "\<dots> \<le> u * \<bar>yh\<bar> + ((1 + u) ^ k - 1) * B"
    using assms(2) [of yh] e by simp
  also have "\<dots> \<le> u * ((1 + u) ^ k * B) + ((1 + u) ^ k - 1) * B"
    using yh assms(1) by (simp add: mult_left_mono)
  also have "\<dots> = ((1 + u) ^ Suc k - 1) * B" by (simp add: algebra_simps)
  finally show ?thesis using y by (simp add: approx_to_def)
qed

lemma approx_plus:
  assumes "approx_to u k B1 y1h y1" and "approx_to u k B2 y2h y2"
  shows "approx_to u k (B1 + B2) (y1h + y2h) (y1 + y2)"
proof -
  have "\<bar>(y1h + y2h) - (y1 + y2)\<bar> \<le> \<bar>y1h - y1\<bar> + \<bar>y2h - y2\<bar>" by simp
  with assms show ?thesis
    by (auto simp: approx_to_def algebra_simps)
qed

lemma approx_times:
  assumes "0 \<le> u" and "approx_to u k B yh y"
  shows "approx_to u k (\<bar>c\<bar> * B) (c * yh) (c * y)"
proof -
  have "\<bar>c * yh - c * y\<bar> = \<bar>c\<bar> * \<bar>yh - y\<bar>"
    by (simp add: abs_mult right_diff_distrib [symmetric])
  also have "\<dots> \<le> \<bar>c\<bar> * (((1 + u) ^ k - 1) * B)"
    using assms(2) by (auto simp: approx_to_def intro: mult_left_mono)
  finally have "\<bar>c * yh - c * y\<bar> \<le> ((1 + u) ^ k - 1) * (\<bar>c\<bar> * B)"
    by (simp add: algebra_simps)
  moreover have "\<bar>c * y\<bar> \<le> \<bar>c\<bar> * B"
    using assms(2) by (auto simp: approx_to_def abs_mult intro: mult_left_mono)
  ultimately show ?thesis by (simp add: approx_to_def)
qed

lemma approx_coeff:
  assumes "0 \<le> u" and "\<bar>ch - c\<bar> \<le> u * \<bar>c\<bar>" and "\<bar>y\<bar> \<le> B"
  shows "approx_to u 1 (\<bar>c\<bar> * B) (ch * y) (c * y)"
proof -
  have "\<bar>ch * y - c * y\<bar> = \<bar>ch - c\<bar> * \<bar>y\<bar>"
    by (simp add: abs_mult left_diff_distrib [symmetric])
  also have "\<dots> \<le> (u * \<bar>c\<bar>) * B"
    using assms by (intro mult_mono) simp_all
  finally have "\<bar>ch * y - c * y\<bar> \<le> ((1 + u) ^ 1 - 1) * (\<bar>c\<bar> * B)"
    by (simp add: algebra_simps)
  moreover have "\<bar>c * y\<bar> \<le> \<bar>c\<bar> * B"
    using assms(3) by (simp add: abs_mult mult_left_mono)
  ultimately show ?thesis by (simp add: approx_to_def)
qed

lemma sweep_rnd_cell:
  assumes u: "0 \<le> u" and rnd: "\<And>z. \<bar>rnd z - z\<bar> \<le> u * \<bar>z\<bar>"
    and ij: "i < ny" "j < nx" and S: "S i j = 0"
    and M: "\<And>i j. i < ny \<Longrightarrow> j < nx \<Longrightarrow> \<bar>x i j\<bar> \<le> M"
  shows "approx_to u 7 ((\<bar>1 - w\<bar> + \<bar>w\<bar>) * M)
           (jacobi_sweep_rnd rnd ny nx S d w x i j) (jacobi_sweep ny nx S d' w x i j)"
proof -
  define r1 where "r1 = roll_axis0 ny 1 x i j"
  define r2 where "r2 = roll_axis0 ny (- 1) x i j"
  define r3 where "r3 = roll_axis1 nx 1 x i j"
  define r4 where "r4 = roll_axis1 nx (- 1) x i j"
  have pos: "0 < ny" "0 < nx" using ij by auto
  have b: "\<bar>r1\<bar> \<le> M" "\<bar>r2\<bar> \<le> M" "\<bar>r3\<bar> \<le> M" "\<bar>r4\<bar> \<le> M"
    using ij pos by (simp_all add: r1_def r2_def r3_def r4_def roll_axis0_def roll_axis1_def M wrap_less)
  have rnd0: "rnd 0 = 0" using rnd [of 0] by simp
  note R = approx_rnd [OF u rnd]
  have e: "approx_to u 0 M r1 r1" "approx_to u 0 M r2 r2" "approx_to u 0 M r3 r3"
    "approx_to u 0 M r4 r4" "approx_to u 0 M (x i j) (x i j)"
    using b M [OF ij] by (simp_all add: approx_exact)
  have a1: "approx_to u 1 (M + M) (rnd (r1 + r2)) (r1 + r2)"
    using R [OF approx_plus [OF e(1) e(2)]] by simp
  have a2: "approx_to u 2 (M + M + M) (rnd (rnd (r1 + r2) + r3)) (r1 + r2 + r3)"
    using R [OF approx_plus [OF a1 approx_weaken [OF u _ e(3), of 1]]] by (simp add: numeral_2_eq_2)
  have a3: "approx_to u 3 (M + M + M + M) (rnd (rnd (rnd (r1 + r2) + r3) + r4)) (r1 + r2 + r3 + r4)"
    using R [OF approx_plus [OF a2 approx_weaken [OF u _ e(4), of 2]]] by (simp add: numeral_3_eq_3 numeral_2_eq_2)
  have z: "approx_to u 3 0 0 0" by (simp add: approx_to_def)
  have a4: "approx_to u 4 (4 * M) (rnd (rnd (rnd (rnd (r1 + r2) + r3) + r4) + rnd (S i j * d)))
      (r1 + r2 + r3 + r4 + S i j * d')"
    using R [OF approx_plus [OF a3 z]] by (simp add: S rnd0 eval_nat_numeral)
  have xn: "approx_to u 5 M
      (rnd (rnd (rnd (rnd (rnd (r1 + r2) + r3) + r4) + rnd (S i j * d)) / 4))
      ((r1 + r2 + r3 + r4 + S i j * d') / 4)"
    using R [OF approx_times [OF u a4, of "1 / 4"]] by (simp add: eval_nat_numeral)
  have q: "approx_to u 6 (\<bar>w\<bar> * M)
      (rnd (w * rnd (rnd (rnd (rnd (rnd (r1 + r2) + r3) + r4) + rnd (S i j * d)) / 4)))
      (w * ((r1 + r2 + r3 + r4 + S i j * d') / 4))"
    using R [OF approx_times [OF u xn, of w]] by (simp add: eval_nat_numeral)
  have p: "approx_to u 6 (\<bar>1 - w\<bar> * M) (rnd (rnd (1 - w) * x i j)) ((1 - w) * x i j)"
    using approx_weaken [OF u _ R [OF approx_coeff [OF u rnd [of "1 - w"] M [OF ij]]], of 6]
    by (simp add: eval_nat_numeral)
  have "approx_to u 7 (\<bar>1 - w\<bar> * M + \<bar>w\<bar> * M)
      (rnd (rnd (rnd (1 - w) * x i j) +
         rnd (w * rnd (rnd (rnd (rnd (rnd (r1 + r2) + r3) + r4) + rnd (S i j * d)) / 4))))
      ((1 - w) * x i j + w * ((r1 + r2 + r3 + r4 + S i j * d') / 4))"
    using R [OF approx_plus [OF p q]] by (simp add: eval_nat_numeral)
  then show ?thesis
    by (simp add: jacobi_sweep_rnd_def jacobi_sweep_def Let_def r1_def r2_def r3_def r4_def
        algebra_simps)
qed

lemma grid_sum_diff_bound:
  assumes "\<And>i j. i < ny \<Longrightarrow> j < nx \<Longrightarrow> \<bar>a i j - b i j\<bar> \<le> c"
  shows "\<bar>grid_sum ny nx a - grid_sum ny nx b\<bar> \<le> real (ny * nx) * c"
proof -
  have "grid_sum ny nx a - grid_sum ny nx b = (\<Sum>i<ny. \<Sum>j<nx. a i j - b i j)"
    by (simp add: grid_sum_def sum_subtractf)
  also have "\<bar>\<dots>\<bar> \<le> (\<Sum>i<ny. \<bar>\<Sum>j<nx. a i j - b i j\<bar>)"
    by (rule sum_abs)
  also have "\<dots> \<le> (\<Sum>i<ny. \<Sum>j<nx. \<bar>a i j - b i j\<bar>)"
    by (intro sum_mono sum_abs)
  also have "\<dots> \<le> (\<Sum>i<ny. \<Sum>j<nx. c)"
    by (intro sum_mono) (simp add: assms)
  also have "\<dots> = real (ny * nx) * c"
    by simp
  finally show ?thesis .
qed

text \<open>
  C7, amended: with a zero source every iteration keeps the spatial mean up to
  rounding. When each operation returns its exact result with a relative error of at
  most \<open>u\<close> (no overflow, no underflow) and the field before the iteration is bounded by
  \<open>M\<close>, the mean after the iteration differs from the mean before it by at most
  \<open>(|1 - \<omega>| + |\<omega>|) ((1 + u)\<^sup>7 - 1) M\<close>; for \<open>u = 0\<close> the means are equal.
\<close>

theorem relaxation_mean_drift:
  assumes u: "0 \<le> u" and rnd: "\<And>z. \<bar>rnd z - z\<bar> \<le> u * \<bar>z\<bar>"
    and pos: "0 < ny" "0 < nx"
    and S: "\<And>i j. i < ny \<Longrightarrow> j < nx \<Longrightarrow> S i j = 0"
    and M: "\<And>i j. i < ny \<Longrightarrow> j < nx \<Longrightarrow>
              \<bar>jacobi_poisson_solver_rnd rnd ny nx S x dx k w i j\<bar> \<le> M"
  shows "\<bar>spatial_mean ny nx (jacobi_poisson_solver_rnd rnd ny nx S x dx (Suc k) w) -
          spatial_mean ny nx (jacobi_poisson_solver_rnd rnd ny nx S x dx k w)\<bar>
         \<le> (\<bar>1 - w\<bar> + \<bar>w\<bar>) * ((1 + u) ^ 7 - 1) * M"
proof -
  define xk where "xk = jacobi_poisson_solver_rnd rnd ny nx S x dx k w"
  define x' where "x' = jacobi_poisson_solver_rnd rnd ny nx S x dx (Suc k) w"
  define E where "E = relaxation_iteration ny nx S dx w xk"
  have step: "x' = jacobi_sweep_rnd rnd ny nx S (rnd (dx * dx)) w xk"
    by (simp add: x'_def xk_def jacobi_poisson_solver_rnd_def jacobi_loop_funpow Let_def)
  have "grid_sum ny nx S = 0"
    unfolding grid_sum_def using S by simp
  then have E: "grid_sum ny nx E = grid_sum ny nx xk"
    by (simp add: E_def grid_sum_sweep)
  have cell: "\<bar>x' i j - E i j\<bar> \<le> ((1 + u) ^ 7 - 1) * ((\<bar>1 - w\<bar> + \<bar>w\<bar>) * M)"
    if "i < ny" "j < nx" for i j
  proof -
    have "approx_to u 7 ((\<bar>1 - w\<bar> + \<bar>w\<bar>) * M)
           (jacobi_sweep_rnd rnd ny nx S (rnd (dx * dx)) w xk i j)
           (jacobi_sweep ny nx S (dx * dx) w xk i j)"
      using u rnd that S [OF that] M unfolding xk_def by (rule sweep_rnd_cell)
    then show ?thesis
      by (simp add: approx_to_def step E_def jacobi_sweep_eq)
  qed
  have "\<bar>grid_sum ny nx x' - grid_sum ny nx xk\<bar> \<le>
        real (ny * nx) * (((1 + u) ^ 7 - 1) * ((\<bar>1 - w\<bar> + \<bar>w\<bar>) * M))"
    using grid_sum_diff_bound [of ny nx x' E, OF cell] by (simp add: E)
  then have "\<bar>grid_sum ny nx x' - grid_sum ny nx xk\<bar> / real (ny * nx) \<le>
        ((1 + u) ^ 7 - 1) * ((\<bar>1 - w\<bar> + \<bar>w\<bar>) * M)"
    using pos by (simp add: field_simps)
  moreover have "\<bar>spatial_mean ny nx x' - spatial_mean ny nx xk\<bar> =
        \<bar>grid_sum ny nx x' - grid_sum ny nx xk\<bar> / real (ny * nx)"
    by (simp add: spatial_mean_def diff_divide_distrib [symmetric] del: of_nat_mult)
  ultimately show ?thesis
    by (simp add: x'_def xk_def algebra_simps)
qed

theorem relaxation_mean_drift_witness:
  "(0::real) \<le> 1 / 2 ^ 24 \<and>
   spatial_mean 2 2 (jacobi_poisson_solver_rnd round24 2 2 zero_source ramp_guess (1 / 2) 0 omega32) = 5 / 2 \<and>
   spatial_mean 2 2 (jacobi_poisson_solver_rnd round24 2 2 zero_source ramp_guess (1 / 2) (Suc 0) omega32) =
     20971521 / 8388608 \<and>
   \<bar>20971521 / 8388608 - 5 / 2\<bar> \<le> (\<bar>1 - omega32\<bar> + \<bar>omega32\<bar>) * ((1 + 1 / 2 ^ 24) ^ 7 - 1) * (4::real)"
proof -
  have M: "\<bar>jacobi_poisson_solver_rnd round24 2 2 zero_source ramp_guess (1 / 2) 0 omega32 i j\<bar> \<le> 4"
    if "i < 2" "j < 2" for i j
  proof -
    have "2 * i + j + 1 \<le> 4" using that by simp
    then have "real (2 * i + j + 1) \<le> 4" by (simp only: of_nat_le_iff [symmetric, where ?'a = real] of_nat_numeral)
    then show ?thesis
      by (simp add: jacobi_poisson_solver_rnd_def ramp_guess_def)
  qed
  have "\<bar>spatial_mean 2 2 (jacobi_poisson_solver_rnd round24 2 2 zero_source ramp_guess (1 / 2) (Suc 0) omega32) -
         spatial_mean 2 2 (jacobi_poisson_solver_rnd round24 2 2 zero_source ramp_guess (1 / 2) 0 omega32)\<bar>
        \<le> (\<bar>1 - omega32\<bar> + \<bar>omega32\<bar>) * ((1 + 1 / 2 ^ 24) ^ 7 - 1) * 4"
  proof (rule relaxation_mean_drift [where u = "1 / 2 ^ 24"])
    show "(0::real) \<le> 1 / 2 ^ 24" by simp
    show "\<bar>round24 z - z\<bar> \<le> 1 / 2 ^ 24 * \<bar>z\<bar>" for z by (rule round24_error)
    show "(0::nat) < 2" by simp
    show "(0::nat) < 2" by simp
    show "zero_source i j = 0" for i j by (simp add: zero_source_def)
    show "\<bar>jacobi_poisson_solver_rnd round24 2 2 zero_source ramp_guess (1 / 2) 0 omega32 i j\<bar> \<le> 4"
      if "i < 2" "j < 2" for i j using that by (rule M)
  qed
  then show ?thesis
    by (simp add: means32)
qed

section \<open>The clipped density\<close>

lemma sweep_nan: "jacobi_sweep_fl ny nx S d w nan_guess = nan_guess"
  by (simp add: jacobi_sweep_fl_def nan_guess_def roll_axis0_def roll_axis1_def fun_eq_iff)

lemma loop_fixed: "body x = x \<Longrightarrow> jacobi_loop n body x = x"
  by (induction n) simp_all

lemma solver_nan: "jacobi_poisson_solver_fl ny nx S nan_guess dx n w = nan_guess"
  unfolding jacobi_poisson_solver_fl_def Let_def by (rule loop_fixed) (rule sweep_nan)

text \<open>On finite inputs the float model of the density path is the real one.\<close>

lemma sweep_fl_fin:
  "jacobi_sweep_fl ny nx (\<lambda>i j. Fin (S i j)) d w (\<lambda>i j. Fin (x i j)) =
     (\<lambda>i j. Fin (jacobi_sweep ny nx S d w x i j))"
  by (simp add: jacobi_sweep_fl_def jacobi_sweep_def roll_axis0_def roll_axis1_def)

lemma loop_fl_fin:
  "jacobi_loop n (jacobi_sweep_fl ny nx (\<lambda>i j. Fin (S i j)) d w) (\<lambda>i j. Fin (x i j)) =
     (\<lambda>i j. Fin (jacobi_loop n (jacobi_sweep ny nx S d w) x i j))"
  by (induction n arbitrary: x) (simp_all add: sweep_fl_fin)

lemma fl_maximum_Fin: "fl_maximum (Fin a) (Fin b) = Fin (max a b)"
  by (simp add: fl_maximum_def max_def)

lemma density_fl_refines:
  "solve_sdg_geometry_density_fl ny nx (\<lambda>i j. Fin (Re (T_info 0 0 i j))) (\<lambda>i j. Fin (rho_s i j))
       spatial_res =
     map_sum id (\<lambda>(r, g). (\<lambda>i j. Fin (r i j)))
       (solve_sdg_geometry ny nx T_info rho_s spatial_res alpha rho_vac)"
  by (simp add: solve_sdg_geometry_density_fl_def solve_sdg_geometry_def jacobi_poisson_solver_fl_def
      jacobi_poisson_solver_def loop_fl_fin jnp_clip_min_def fl_maximum_Fin Let_def)

text \<open>
  C3, as stated: every cell of the density returned by the geometry solve is at least
  \<open>10\<^sup>-\<^sup>6\<close>, for every warm start. It fails for a warm start of NaN on a 1 x 1 grid
  with a zero source: every sweep yields NaN, the clip keeps NaN, and NaN is not
  \<open>\<ge> 10\<^sup>-\<^sup>6\<close>.
\<close>

theorem clip_passes_nan:
  "\<not> isl (solve_sdg_geometry_density_fl 1 1 zero_source_fl nan_guess 1) \<and>
   \<not> fl_le (Fin (1 / 10 ^ 6)) (projr (solve_sdg_geometry_density_fl 1 1 zero_source_fl nan_guess 1) 0 0)"
  by (simp add: solve_sdg_geometry_density_fl_def solver_nan fl_maximum_def)
    (simp add: nan_guess_def)

lemma zero_sweep: "jacobi_sweep_fl ny nx zero_source_fl d w zero_guess = zero_guess"
  by (simp add: jacobi_sweep_fl_def zero_guess_def zero_source_fl_def roll_axis0_def roll_axis1_def)

lemma solver_zero: "jacobi_poisson_solver_fl ny nx zero_source_fl zero_guess dx n w = zero_guess"
  unfolding jacobi_poisson_solver_fl_def Let_def by (rule loop_fixed) (rule zero_sweep)

text \<open>
  C3, amended: every cell of the density returned by the geometry solve is the
  NaN-propagating maximum of \<open>10\<^sup>-\<^sup>6\<close> and the relaxed value at that cell. It is NaN
  exactly when the relaxed value is NaN, and otherwise it is at least \<open>10\<^sup>-\<^sup>6\<close>.
\<close>

theorem density_floor_or_nan:
  assumes "solve_sdg_geometry_density_fl ny nx T_00 rho_s spatial_res = Inr rho_s_new"
  shows "rho_s_new i j =
           fl_maximum (Fin (1 / 10 ^ 6))
             (jacobi_poisson_solver_fl ny nx T_00 rho_s (1 / spatial_res) 50 (18 / 10) i j)
         \<and> (rho_s_new i j = NaN \<longleftrightarrow>
              jacobi_poisson_solver_fl ny nx T_00 rho_s (1 / spatial_res) 50 (18 / 10) i j = NaN)
         \<and> (jacobi_poisson_solver_fl ny nx T_00 rho_s (1 / spatial_res) 50 (18 / 10) i j \<noteq> NaN \<longrightarrow>
              fl_le (Fin (1 / 10 ^ 6)) (rho_s_new i j))
         \<and> (rho_s_new i j = NaN \<or> fl_le (Fin (1 / 10 ^ 6)) (rho_s_new i j))"
proof -
  have m: "(fl_maximum (Fin c) v = NaN \<longleftrightarrow> v = NaN) \<and>
           (v \<noteq> NaN \<longrightarrow> fl_le (Fin c) (fl_maximum (Fin c) v))" for c v
    by (cases v) (simp_all add: fl_maximum_def)
  from assms have "rho_s_new i j = fl_maximum (Fin (1 / 10 ^ 6))
      (jacobi_poisson_solver_fl ny nx T_00 rho_s (1 / spatial_res) 50 (18 / 10) i j)"
    by (auto simp: solve_sdg_geometry_density_fl_def Let_def split: if_splits)
  then show ?thesis
    using m by auto
qed

theorem density_floor_or_nan_witness:
  "projr (solve_sdg_geometry_density_fl 1 1 zero_source_fl zero_guess 1) 0 0 = Fin (1 / 10 ^ 6) \<and>
   jacobi_poisson_solver_fl 1 1 zero_source_fl zero_guess (1 / 1) 50 (18 / 10) 0 0 = Fin 0 \<and>
   fl_le (Fin (1 / 10 ^ 6)) (projr (solve_sdg_geometry_density_fl 1 1 zero_source_fl zero_guess 1) 0 0) \<and>
   jacobi_poisson_solver_fl 1 1 zero_source_fl nan_guess (1 / 1) 50 (18 / 10) 0 0 = NaN \<and>
   projr (solve_sdg_geometry_density_fl 1 1 zero_source_fl nan_guess 1) 0 0 = NaN"
proof -
  have z: "solve_sdg_geometry_density_fl 1 1 zero_source_fl zero_guess 1 =
      Inr (projr (solve_sdg_geometry_density_fl 1 1 zero_source_fl zero_guess 1))"
    by (simp add: solve_sdg_geometry_density_fl_def)
  have n: "solve_sdg_geometry_density_fl 1 1 zero_source_fl nan_guess 1 =
      Inr (projr (solve_sdg_geometry_density_fl 1 1 zero_source_fl nan_guess 1))"
    by (simp add: solve_sdg_geometry_density_fl_def)
  have rz: "jacobi_poisson_solver_fl 1 1 zero_source_fl zero_guess (1 / 1) 50 (18 / 10) 0 0 = Fin 0"
    by (simp add: solver_zero) (simp add: zero_guess_def)
  have rn: "jacobi_poisson_solver_fl 1 1 zero_source_fl nan_guess (1 / 1) 50 (18 / 10) 0 0 = NaN"
    by (simp add: solver_nan) (simp add: nan_guess_def)
  from density_floor_or_nan [OF z, of 0 0] density_floor_or_nan [OF n, of 0 0] rz rn
  show ?thesis
    by (simp add: fl_maximum_def)
qed


section \<open>The metric assembly\<close>

lemma jnp_diag_minkowski: "a < 4 \<Longrightarrow> b < 4 \<Longrightarrow> jnp_diag [- 1, 1, 1, 1] a b = minkowski a b"
  by (cases a) (auto simp: jnp_diag_def minkowski_def nth_Cons split: nat.splits)

lemma solve_uses_assemble:
  "solve_sdg_geometry ny nx T_info rho_s spatial_res alpha rho_vac = Inr (rho_s_new, g_mu_nu) \<Longrightarrow>
   g_mu_nu = assemble_metric rho_s_new alpha rho_vac \<and> (\<forall>i j. 1 / 10 ^ 6 \<le> rho_s_new i j)"
  by (auto simp: solve_sdg_geometry_def Let_def jnp_clip_min_def split: if_splits)

text \<open>
  C4. For a density that is at least \<open>10\<^sup>-\<^sup>6\<close> at a cell, the assembled metric at that
  cell is \<open>diag(-1, 1, 1, 1)[a, b]\<close> times the scale \<open>(\<rho>\<^sub>v\<^sub>a\<^sub>c / \<rho>\<^sub>s) ** \<alpha>\<close>; for a positive
  vacuum density the scale is the real power. Where the density equals the vacuum
  density, the scale is 1 and the metric is \<open>diag(-1, 1, 1, 1)\<close>.
\<close>

theorem metric_assembly:
  assumes "1 / 10 ^ 6 \<le> rho_s_new i j" and "a < 4" and "b < 4"
  shows "assemble_metric rho_s_new alpha rho_vac a b i j =
           map_option (\<lambda>s. minkowski a b * s) (jnp_power (rho_vac / rho_s_new i j) alpha)
         \<and> (0 < rho_vac \<longrightarrow>
              assemble_metric rho_s_new alpha rho_vac a b i j =
                Some (minkowski a b * (rho_vac / rho_s_new i j) powr alpha))
         \<and> (rho_s_new i j = rho_vac \<longrightarrow>
              jnp_power (rho_vac / rho_s_new i j) alpha = Some 1 \<and>
              assemble_metric rho_s_new alpha rho_vac a b i j = Some (minkowski a b))"
proof -
  have pos: "0 < rho_s_new i j"
    using assms(1) by (rule less_le_trans [rotated]) simp
  show ?thesis
    using pos assms(2,3)
    by (auto simp: assemble_metric_def jnp_diag_minkowski jnp_power_def Let_def)
qed

theorem metric_assembly_witness:
  "(1::real) / 10 ^ 6 \<le> (\<lambda>i j. 2) (0::nat) (0::nat) \<and> (0::nat) < 4 \<and>
   assemble_metric (\<lambda>i j. 2) 3 2 0 0 0 0 = Some (- 1) \<and>
   assemble_metric (\<lambda>i j. 2) 3 2 0 1 0 0 = Some 0"
  using metric_assembly [of "\<lambda>i j. 2" 0 0 0 0 3 2] metric_assembly [of "\<lambda>i j. 2" 0 0 0 1 3 2]
  by (simp add: minkowski_def)

section \<open>What the geometry solve reads of the stress-energy tensor\<close>

lemma sweep_agree:
  assumes "grid_agree ny nx S S'" and "grid_agree ny nx x x'"
  shows "grid_agree ny nx (jacobi_sweep ny nx S d w x) (jacobi_sweep ny nx S' d w x')"
  unfolding grid_agree_def
proof (intro allI impI)
  fix i j assume ij: "i < ny" "j < nx"
  then have "0 < ny" "0 < nx" by auto
  then have "\<And>k. wrap ny k < ny" "\<And>k. wrap nx k < nx"
    by (simp_all add: wrap_less)
  with assms ij show "jacobi_sweep ny nx S d w x i j = jacobi_sweep ny nx S' d w x' i j"
    by (simp add: grid_agree_def jacobi_sweep_def roll_axis0_def roll_axis1_def)
qed

lemma loop_agree:
  assumes "grid_agree ny nx S S'"
  shows "grid_agree ny nx x x' \<Longrightarrow>
    grid_agree ny nx (jacobi_loop n (jacobi_sweep ny nx S d w) x)
      (jacobi_loop n (jacobi_sweep ny nx S' d w) x')"
  by (induction n arbitrary: x x') (simp_all add: sweep_agree [OF assms])

text \<open>
  C10. Two stress-energy tensors whose components \<open>[0, 0]\<close> have the same real part at
  every cell give the same outcome of \<^verbatim>\<open>solve_sdg_geometry\<close> for the same warm start
  and configuration: the same error, or the same density and the same metric at every
  cell. The imaginary part of \<open>T[0, 0]\<close> and the other fifteen components are not read.
\<close>

theorem geometry_reads_real_T00_only:
  assumes "\<And>i j. i < ny \<Longrightarrow> j < nx \<Longrightarrow> Re (T_info 0 0 i j) = Re (T_info' 0 0 i j)"
  shows "rel_sum (=)
           (\<lambda>(rho, g) (rho', g'). \<forall>i<ny. \<forall>j<nx. rho i j = rho' i j \<and> (\<forall>a b. g a b i j = g' a b i j))
           (solve_sdg_geometry ny nx T_info rho_s spatial_res alpha rho_vac)
           (solve_sdg_geometry ny nx T_info' rho_s spatial_res alpha rho_vac)"
proof (cases "spatial_res = 0")
  case True
  then show ?thesis by (simp add: solve_sdg_geometry_def)
next
  case False
  have "grid_agree ny nx (\<lambda>i j. Re (T_info 0 0 i j)) (\<lambda>i j. Re (T_info' 0 0 i j))"
    using assms by (simp add: grid_agree_def)
  then have "grid_agree ny nx
      (jacobi_poisson_solver ny nx (\<lambda>i j. Re (T_info 0 0 i j)) rho_s (1 / spatial_res) 50 (18 / 10))
      (jacobi_poisson_solver ny nx (\<lambda>i j. Re (T_info' 0 0 i j)) rho_s (1 / spatial_res) 50 (18 / 10))"
    unfolding jacobi_poisson_solver_def Let_def
    by (rule loop_agree) (simp add: grid_agree_def)
  with False show ?thesis
    by (simp add: solve_sdg_geometry_def Let_def grid_agree_def jnp_clip_min_def assemble_metric_def)
qed

theorem geometry_reads_real_T00_only_witness:
  "Re (zero_stress 0 0 0 0) = Re (noisy_stress 0 0 0 0) \<and>
   fst (projr (solve_sdg_geometry 1 1 zero_stress ramp_guess 2 1 1)) 0 0 =
     fst (projr (solve_sdg_geometry 1 1 noisy_stress ramp_guess 2 1 1)) 0 0 \<and>
   snd (projr (solve_sdg_geometry 1 1 zero_stress ramp_guess 2 1 1)) 0 0 0 0 =
     snd (projr (solve_sdg_geometry 1 1 noisy_stress ramp_guess 2 1 1)) 0 0 0 0"
proof -
  have h: "Re (zero_stress 0 0 i j) = Re (noisy_stress 0 0 i j)" for i j
    by (simp add: zero_stress_def noisy_stress_def)
  have "rel_sum (=)
     (\<lambda>(rho, g) (rho', g'). \<forall>i<1. \<forall>j<1. rho i j = rho' i j \<and> (\<forall>a b. g a b i j = g' a b i j))
     (solve_sdg_geometry 1 1 zero_stress ramp_guess 2 1 1)
     (solve_sdg_geometry 1 1 noisy_stress ramp_guess 2 1 1)"
    by (rule geometry_reads_real_T00_only) (rule h)
  then show ?thesis
    using h by (auto simp: solve_sdg_geometry_def Let_def)
qed

section \<open>The stress-energy component and the grid edges\<close>

lemma sqrt_floor_sq: "0 \<le> x \<Longrightarrow> c \<le> x\<^sup>2 \<Longrightarrow> sqrt (max (x\<^sup>2) c) = x"
  by (simp add: max_def)

lemma ramp_sqrt_rho:
  "c \<le> 1 \<Longrightarrow>
   sqrt (max ((cmod (ramp_field i j))\<^sup>2) c) = (if j = 0 then 1 else if j = 1 then 2 else 5)"
  by (simp add: ramp_field_def sqrt_floor_sq)

text \<open>
  C1, as stated: the component \<open>[0, 0]\<close> is \<open>\<kappa> \<rho> |\<nabla>\<phi>|\<^sup>2 + \<eta> |\<nabla>\<surd>max(\<rho>, 10\<^sup>-\<^sup>9)|\<^sup>2\<close> with
  central differences that wrap periodically at the grid edges. It fails at the corner
  cell \<open>(0, 0)\<close> of a 3 x 3 field with amplitudes 1, 2, 5 along axis 1 (\<open>\<kappa> = 0\<close>,
  \<open>\<eta> = 1\<close>): the code takes the one-sided difference \<open>2 - 1\<close> and returns 1, the
  periodic formula takes \<open>(2 - 5) / 2\<close> and gives 9/4.
\<close>

theorem stress_energy_edge_not_periodic:
  "\<not> isl (calculate_informational_stress_energy 3 3 ramp_field 0 1) \<and>
   projr (calculate_informational_stress_energy 3 3 ramp_field 0 1) 0 0 0 0 = 1 \<and>
   claimed_T00 3 3 ramp_field 0 1 0 0 = 9 / 4"
  by (simp add: calculate_informational_stress_energy_def claimed_T00_def Let_def
      gradient_axis0_def gradient_axis1_def jnp_gradient_1d_def periodic_central_difference_def
      ramp_sqrt_rho)
    (simp add: power2_eq_square)

lemma gradient_1d_edge: "2 \<le> n \<Longrightarrow> i < n \<Longrightarrow> jnp_gradient_1d n 1 a i = edge_difference n a i"
  by (auto simp: jnp_gradient_1d_def edge_difference_def numeral_2_eq_2)

lemma edge_periodic_interior:
  assumes "0 < i" and "Suc i < n"
  shows "edge_difference n a i = periodic_central_difference n a i"
proof -
  have "i + n - 1 = (i - 1) + n"
    using assms by simp
  moreover have "((i - 1) + n) mod n = i - 1"
    using assms by (metis Suc_lessD less_imp_diff_less mod_add_self2 mod_less)
  ultimately have "(i + n - 1) mod n = i - 1"
    by (simp only:)
  with assms show ?thesis
    by (simp add: edge_difference_def periodic_central_difference_def)
qed

text \<open>
  C1, amended: on a grid of at least 2 x 2 the calculator returns a tensor whose
  component \<open>[0, 0]\<close> at every cell is \<open>\<kappa> \<rho> |\<nabla>\<phi>|\<^sup>2 + \<eta> |\<nabla>\<surd>max(\<rho>, 10\<^sup>-\<^sup>9)|\<^sup>2\<close>, where both
  gradients are central differences at interior indices and one-sided differences to the
  single neighbour at the first and last index of an axis, without wrap. At the cells
  that are interior along both axes this is the periodic formula of the claim.
\<close>

theorem stress_energy_T00:
  assumes "2 \<le> ny" and "2 \<le> nx" and "i < ny" and "j < nx"
  shows "\<exists>T. calculate_informational_stress_energy ny nx Psi \<kappa> \<eta> = Inr T \<and>
           T 0 0 i j = complex_of_real (edge_T00 ny nx Psi \<kappa> \<eta> i j) \<and>
           (0 < i \<and> Suc i < ny \<and> 0 < j \<and> Suc j < nx \<longrightarrow>
              T 0 0 i j = complex_of_real (claimed_T00 ny nx Psi \<kappa> \<eta> i j))"
  using assms
  by (auto simp: calculate_informational_stress_energy_def Let_def gradient_axis0_def
      gradient_axis1_def gradient_1d_edge edge_T00_def claimed_T00_def edge_periodic_interior)

theorem stress_energy_T00_witness:
  "(2::nat) \<le> 3 \<and> (1::nat) < 3 \<and>
   calculate_informational_stress_energy 3 3 ramp_field 0 1 =
     Inr (projr (calculate_informational_stress_energy 3 3 ramp_field 0 1)) \<and>
   projr (calculate_informational_stress_energy 3 3 ramp_field 0 1) 0 0 1 1 =
     complex_of_real (claimed_T00 3 3 ramp_field 0 1 1 1) \<and>
   claimed_T00 3 3 ramp_field 0 1 1 1 = 4"
proof -
  from stress_energy_T00 [of 3 3 1 1 ramp_field 0 1]
  obtain T where T: "calculate_informational_stress_energy 3 3 ramp_field 0 1 = Inr T"
    and c: "T 0 0 1 1 = complex_of_real (claimed_T00 3 3 ramp_field 0 1 1 1)"
    by auto
  have "claimed_T00 3 3 ramp_field 0 1 1 1 = 4"
    by (simp add: claimed_T00_def periodic_central_difference_def ramp_sqrt_rho)
  with T c show ?thesis by simp
qed

section \<open>The covariant diffusion never returns\<close>

text \<open>
  C5. The claim is that the operator returns \<open>\<epsilon> (0.5 + 0.8 i)\<close> times the
  Laplace-Beltrami value. In the code every call ends in an exception: a zero
  resolution raises on the division, and otherwise \<^verbatim>\<open>jax.jacfwd\<close> rejects the integer
  coordinate grid before any increment is computed.
\<close>

theorem diffusion_always_raises:
  "isl (apply_complex_diffusion ny nx Psi epsilon g_mu_nu spatial_resolution)"
  by (simp add: apply_complex_diffusion_def jacfwd_metric_def grid_dtype_def Let_def)

text \<open>
  C8. On the spatially uniform Minkowski metric, a 3 x 3 field and resolution 3 the
  operator raises \<^verbatim>\<open>TypeError\<close>; no Christoffel symbol and no increment is produced.
\<close>

theorem diffusion_raises_on_flat_metric:
  "apply_complex_diffusion 3 3 ramp_field 1 flat_metric 3 = Inl TypeError"
  by (simp add: apply_complex_diffusion_def jacfwd_metric_def grid_dtype_def Let_def)





text \<open>
  The statements behind the failing call, for a coordinate grid of a floating type: a
  spatially uniform block has a zero Jacobian, and with a zero Jacobian the Christoffel
  term vanishes and the increment is the coefficient times the inverse metric
  contracted with the Hessian of \<^verbatim>\<open>jnp.gradient\<close>.
\<close>

lemma float_jacobian_uniform:
  assumes "\<And>y x i j. g_ij y x i j = c i j"
  shows "jacfwd_metric Float32 ny nx g_ij = Inr (\<lambda>y x i j k. 0)"
  by (simp add: jacfwd_metric_def assms cong: if_cong)

lemma diffusion_zero_jacobian:
  assumes "2 \<le> ny" and "2 \<le> nx"
  shows "diffusion_from_jacobian ny nx Psi epsilon dx g_inv (\<lambda>y x i j k. 0) =
     Inr (\<lambda>y x. (complex_of_real (epsilon * (1 / 2)) + \<i> * complex_of_real epsilon * (8 / 10)) *
        (\<Sum>i<2. \<Sum>j<2. complex_of_real (g_inv y x i j) *
           (if i = 0 then (if j = 0 then gradient_axis0 ny dx (gradient_axis0 ny dx Psi) y x
                           else gradient_axis1 nx dx (gradient_axis0 ny dx Psi) y x)
            else (if j = 0 then gradient_axis0 ny dx (gradient_axis1 nx dx Psi) y x
                  else gradient_axis1 nx dx (gradient_axis1 nx dx Psi) y x))))"
  using assms by (simp add: diffusion_from_jacobian_def Let_def)

section \<open>The validator on a diverged field\<close>

lemma fl_le_refl: "x \<noteq> NaN \<Longrightarrow> fl_le x x"
  by (cases x) simp_all

lemma fl_le_total: "x \<noteq> NaN \<Longrightarrow> y \<noteq> NaN \<Longrightarrow> \<not> fl_le x y \<Longrightarrow> fl_le y x"
  by (cases x; cases y) simp_all

lemma fl_le_trans: "fl_le x y \<Longrightarrow> fl_le y z \<Longrightarrow> fl_le x z"
  by (cases x; cases y; cases z) simp_all

lemma fl_lt_le_trans: "fl_lt x y \<Longrightarrow> fl_le y z \<Longrightarrow> fl_lt x z"
  by (cases x; cases y; cases z) simp_all

lemma fl_maximum_props:
  assumes "x \<noteq> NaN" and "y \<noteq> NaN"
  shows "fl_maximum x y \<noteq> NaN" and "fl_le x (fl_maximum x y)" and "fl_le y (fl_maximum x y)"
  using assms by (auto simp: fl_maximum_def fl_le_refl fl_le_total)

lemma foldl_maximum_bound:
  assumes "NaN \<notin> set vs" and "a \<noteq> NaN"
  shows "foldl fl_maximum a vs \<noteq> NaN \<and> fl_le a (foldl fl_maximum a vs) \<and>
         (\<forall>v\<in>set vs. fl_le v (foldl fl_maximum a vs))"
  using assms
proof (induction vs arbitrary: a)
  case Nil
  then show ?case by (simp add: fl_le_refl)
next
  case (Cons w ws)
  then have w: "w \<noteq> NaN" and ws: "NaN \<notin> set ws" by auto
  note m = fl_maximum_props [OF Cons.prems(2) w]
  from Cons.IH [OF ws m(1)]
  have ih: "foldl fl_maximum (fl_maximum a w) ws \<noteq> NaN"
    "fl_le (fl_maximum a w) (foldl fl_maximum (fl_maximum a w) ws)"
    "\<forall>v\<in>set ws. fl_le v (foldl fl_maximum (fl_maximum a w) ws)"
    by auto
  show ?case
    using ih fl_le_trans [OF m(2) ih(2)] fl_le_trans [OF m(3) ih(2)] by simp
qed

lemma np_max_exceeds:
  assumes "NaN \<notin> set rho" and "v \<in> set rho" and "fl_lt c v"
  shows "\<exists>m. np_max rho = Inr m \<and> fl_lt c m"
proof (cases rho)
  case Nil
  with assms show ?thesis by simp
next
  case (Cons a vs)
  with assms have "a \<noteq> NaN" "NaN \<notin> set vs" by auto
  from foldl_maximum_bound [OF this(2) this(1)] assms(2) Cons
  have "fl_le v (foldl fl_maximum a vs)" by auto
  with assms(3) Cons show ?thesis
    by (auto intro: fl_lt_le_trans)
qed

lemma np_abs_range: "np_abs z = PInf \<or> np_abs z = NaN \<or> (\<exists>a. np_abs z = Fin a)"
  by (cases z rule: np_abs.cases) auto

lemma density_not_MInf:
  assumes "v \<in> set (density psi)"
  shows "v \<noteq> MInf"
proof -
  from assms obtain z where "v = fl_mul (np_abs z) (np_abs z)"
    by (auto simp: density_def)
  with np_abs_range [of z] show ?thesis
    by auto
qed

lemma divergence_test_true:
  assumes "\<exists>v\<in>set (density psi). \<not> fl_finite v \<or> fl_lt (Fin (10 ^ 6)) v"
  shows "divergence_test (density psi) = Inr True"
proof (cases "NaN \<in> set (density psi)")
  case True
  then show ?thesis
    by (auto simp: divergence_test_def list_ex_iff)
next
  case False
  from assms obtain v where v: "v \<in> set (density psi)"
    and d: "\<not> fl_finite v \<or> fl_lt (Fin (10 ^ 6)) v" by auto
  have "v \<noteq> NaN" using v False by auto
  moreover have "v \<noteq> MInf" using v by (rule density_not_MInf)
  ultimately have "fl_lt (Fin (10 ^ 6)) v"
    using d by (cases v) auto
  from np_max_exceeds [OF False v this] False show ?thesis
    by (auto simp: divergence_test_def list_ex_iff)
qed

lemma atomic_write_at: "json_files (atomic_write_provenance p d fs) p = Some d"
  by (simp add: atomic_write_provenance_def Let_def)

text \<open>
  C6. When the archive of the job holds a field \<^verbatim>\<open>final_psi\<close> whose density \<open>|\<psi>|\<^sup>2\<close>
  contains a non-finite value or a value above \<open>10\<^sup>6\<close>, the validator leaves at the
  provenance path a record with status \<^verbatim>\<open>"DIVERGENCE"\<close>, the configured divergence
  code as sentinel, and metrics holding the single entry 1000 under the spectral key:
  no stability metric, no error text. The analysis is not run: the outcome is the same
  for every analysis.
\<close>

theorem divergence_record:
  assumes "h5_files fs (h5_path_of st job) = Some f"
    and "f ''final_psi'' = Some psi"
    and "\<exists>v\<in>set (density psi). \<not> fl_finite v \<or> fl_lt (Fin (10 ^ 6)) v"
  shows "json_files (run_validation st an fs job) (prov_path_of st job) =
           Some \<lparr>job_uuid = job, metrics = [SSE_METRIC_KEY st \<mapsto> Fin 1000],
                 sentinel_code = SENTINEL_DIVERGENCE st, validation_status = ''DIVERGENCE'',
                 error_text = None, traceback_text = None\<rparr>
         \<and> run_validation st an fs job = run_validation st an' fs job"
  using assms(1,2) divergence_test_true [OF assms(3)]
  by (simp add: run_validation_def validation_try_def Let_def atomic_write_at)

theorem divergence_record_witness:
  "json_files (run_validation fallback_settings failing_analysis nan_store ''j1'')
      ''provenance_reports/provenance_j1.json'' =
     Some \<lparr>job_uuid = ''j1'', metrics = [''log_prime_sse'' \<mapsto> Fin 1000],
           sentinel_code = 1002, validation_status = ''DIVERGENCE'',
           error_text = None, traceback_text = None\<rparr>"
proof -
  have a: "h5_files nan_store (h5_path_of fallback_settings ''j1'') = Some nan_archive"
    by (simp add: nan_store_def h5_path_of_def fallback_settings_def path_join_def)
  have b: "nan_archive ''final_psi'' = Some nan_field"
    by (simp add: nan_archive_def)
  have c: "\<exists>v\<in>set (density nan_field). \<not> fl_finite v \<or> fl_lt (Fin (10 ^ 6)) v"
    by (simp add: density_def nan_field_def)
  have p: "prov_path_of fallback_settings ''j1'' = ''provenance_reports/provenance_j1.json''"
    by (simp add: prov_path_of_def fallback_settings_def path_join_def)
  from divergence_record [OF a b c, of failing_analysis failing_analysis] show ?thesis
    unfolding p by (simp add: fallback_settings_def)
qed


end
